theory Spec2Isabelle
  imports Complex_Main "HOL-Library.Multiset" "HOL-Library.Char_ord" "HOL-Library.List_Lexorder"
begin

section \<open>Values shared by the two servers\<close>

text \<open>
  The repository holds two variants of one report server: \<^verbatim>\<open>src/unnamed/part_000\<close>
  (SQLite table \<^verbatim>\<open>reports\<close>, files under \<^verbatim>\<open>uploads/\<close>, route \<^verbatim>\<open>/api/reports\<close>) and
  \<^verbatim>\<open>src/API/server.js\<close> (Supabase table and bucket \<^verbatim>\<open>informes\<close>, route
  \<^verbatim>\<open>/api/informes\<close>). Both are embedded. A thrown JavaScript error is the left
  summand of a sum type; mutation of the database, of the disk and of the bucket is
  explicit state passing; every answer of the outside world (the QR library, the SMTP
  transport, the storage service, pdfkit's layout cursor) is read from an environment
  record, so that a failure of the outside world is an input of the model.

  Left out: \<^verbatim>\<open>optimizeImage\<close> (part_000 starts it without awaiting it and it catches
  its own errors), the names multer's disk storage gives the files, faults of
  \<^verbatim>\<open>fs.writeFileSync\<close> and of SQLite other than the primary-key conflict, the partly
  written PDF file of a render that throws, and the content of the mail. Form fields
  are strings, as a multipart body delivers them.
\<close>

datatype error = Error string

text \<open>
  A JavaScript value that may be \<^verbatim>\<open>undefined\<close> or \<^verbatim>\<open>null\<close> is a \<open>string option\<close>.
  \<open>truthy\<close> is the test \<^verbatim>\<open>if (v)\<close> on such a value and \<open>or_else\<close> is \<^verbatim>\<open>v || d\<close>:
  the empty string is falsy. \<open>show_js\<close> is the interpolation \<^verbatim>\<open>${v}\<close> of a column
  read back from the database, where a missing value is \<^verbatim>\<open>null\<close>.
\<close>

definition truthy :: "string option \<Rightarrow> bool" where
  "truthy v = (case v of None \<Rightarrow> False | Some s \<Rightarrow> s \<noteq> [])"

definition or_else :: "string option \<Rightarrow> string \<Rightarrow> string" where
  "or_else v d = (case v of None \<Rightarrow> d | Some s \<Rightarrow> if s = [] then d else s)"

definition show_js :: "string option \<Rightarrow> string" where
  "show_js v = (case v of None \<Rightarrow> ''null'' | Some s \<Rightarrow> s)"

text \<open>
  \<^verbatim>\<open>s.split(c)\<close> for a one-character separator: the result always has at least one
  part, and \<^verbatim>\<open>parts[i]\<close> beyond the end is \<^verbatim>\<open>undefined\<close>.
\<close>

fun split_on :: "char \<Rightarrow> string \<Rightarrow> string list" where
  "split_on c [] = [[]]"
| "split_on c (x # xs) =
     (if x = c then [] # split_on c xs
      else (case split_on c xs of
              [] \<Rightarrow> [[x]]
            | p # ps \<Rightarrow> (x # p) # ps))"

definition index :: "'a list \<Rightarrow> nat \<Rightarrow> 'a option" where
  "index xs i = (if i < length xs then Some (xs ! i) else None)"

text \<open>
  The contents of a buffer or of a stored file are kept symbolic: the bytes that
  \<^verbatim>\<open>Buffer.from(s, 'base64')\<close> decodes from \<open>s\<close>, the bytes of an uploaded part, or a
  rendered PDF document (the list of drawing operations, below).
\<close>

datatype box = Fit real real | Width real

datatype content = Base64 string | Bytes "nat list" | Rendered "draw list"
  and src = File string | Remote string | Buf content
  and draw = Txt string | TxtAt string real real | Image src real real box | AddPage

subsection \<open>The photo grid of \<^verbatim>\<open>generatePDF\<close>\<close>

text \<open>
  Both servers run the same loop (part_000 lines 144--152, server.js lines 100--109):
  \<^verbatim>\<open>
  let x = 40, y = doc.y, maxW = 180, maxH = 140;
  for (let foto of fotos) {
    try { doc.image(<foto>, x, y, { fit: [maxW, maxH] }); } catch {}
    x += maxW + 15;
    if (x + maxW > 555) { x = 40; y += maxH + 20; }
    if (y + maxH > 740) { doc.addPage(); y = 60; }
  }
  \<close>
  \<open>ok\<close> tells whether the image loads (a failed load is caught and draws nothing) and
  \<open>mk\<close> makes the image source from the stored reference. The function returns the
  operations the loop emits, in order. Coordinates are PDF points; JavaScript numbers
  are modelled as reals (every constant of the loop is a small integer; the start
  \<^verbatim>\<open>doc.y\<close> is whatever pdfkit's text layout left).
\<close>

definition maxW :: real where "maxW = 180"
definition maxH :: real where "maxH = 140"

fun photo_loop :: "(src \<Rightarrow> bool) \<Rightarrow> (string \<Rightarrow> src) \<Rightarrow> string list \<Rightarrow> real \<Rightarrow> real \<Rightarrow> draw list" where
  "photo_loop ok mk [] x y = []"
| "photo_loop ok mk (foto # rest) x y =
     (let drawn = (if ok (mk foto) then [Image (mk foto) x y (Fit maxW maxH)] else []);
          x1 = x + (maxW + 15);
          wrap = (x1 + maxW > 555);
          x2 = (if wrap then 40 else x1);
          y2 = (if wrap then y + (maxH + 20) else y);
          brk = (y2 + maxH > 740);
          y3 = (if brk then 60 else y2)
      in drawn @ (if brk then [AddPage] else []) @ photo_loop ok mk rest x2 y3)"

text \<open>
  The grid as the specification words it: image \<open>i\<close> sits in slot \<open>i\<close>; the first slot
  is at \<open>x = 40\<close> on the starting page; the next slot is 195 to the right, unless its
  right edge \<open>x + 180\<close> would pass 555, in which case it is at \<open>x = 40\<close> one row
  (160) down; and if that slot's bottom edge \<open>y + 140\<close> would pass 740 it is at
  \<open>y = 60\<close> on a new page. A slot is (page, x, y).
\<close>

definition next_slot :: "nat \<times> real \<times> real \<Rightarrow> nat \<times> real \<times> real" where
  "next_slot s =
     (case s of (p, x, y) \<Rightarrow>
        let x' = (if (x + 195) + 180 > 555 then 40 else x + 195);
            y' = (if (x + 195) + 180 > 555 then y + 160 else y)
        in if y' + 140 > 740 then (Suc p, x', 60) else (p, x', y'))"

fun slot :: "real \<Rightarrow> nat \<Rightarrow> nat \<times> real \<times> real" where
  "slot y0 0 = (0, 40, y0)"
| "slot y0 (Suc i) = next_slot (slot y0 i)"

text \<open>Reading a document back: the images it shows, each with its page and position.\<close>

fun placed :: "nat \<Rightarrow> draw list \<Rightarrow> (nat \<times> src \<times> real \<times> real \<times> box) list" where
  "placed p [] = []"
| "placed p (AddPage # ops) = placed (Suc p) ops"
| "placed p (Image s x y b # ops) = (p, s, x, y, b) # placed p ops"
| "placed p (Txt t # ops) = placed p ops"
| "placed p (TxtAt t x y # ops) = placed p ops"


section \<open>Records, requests, responses and the environment\<close>

text \<open>
  One row of the table \<^verbatim>\<open>reports\<close> (part_000 lines 47--66; the Supabase table
  \<^verbatim>\<open>informes\<close> receives the same columns, server.js lines 194--213). The column
  \<^verbatim>\<open>id\<close> is \<open>report_id\<close> here. part_000 stores \<^verbatim>\<open>fotos\<close> and \<^verbatim>\<open>anexos\<close> as
  \<^verbatim>\<open>JSON.stringify\<close> of a list of strings and reads them with \<^verbatim>\<open>JSON.parse\<close>;
  the model keeps the list.
\<close>

record report =
  report_id :: string
  created_at :: string
  updated_at :: string
  num_reporte :: "string option"
  usuario :: "string option"
  cliente :: "string option"
  telefono :: "string option"
  tipo_equipo :: "string option"
  tipo_servicio :: "string option"
  diagnostico :: "string option"
  trabajos :: "string option"
  observaciones :: "string option"
  estado :: string
  firma_tecnico :: "string option"
  firma_cliente :: "string option"
  fotos :: "string list"
  anexos :: "string list"
  pdf_path :: "string option"

text \<open>
  A multipart submission as multer hands it on: the text fields (\<^verbatim>\<open>req.body\<close>) and
  the file parts in the order they arrive. \<open>fpath\<close> is the path multer's disk storage
  gave the file (part_000), \<open>fbuffer\<close> its bytes in memory (server.js).
\<close>

record upload =
  fieldname :: string
  originalname :: string
  mimetype :: string
  fsize :: nat
  fpath :: string
  fbuffer :: content

record request =
  body :: "string \<rightharpoonup> string"
  parts :: "upload list"

record query =
  q_usuario :: "string option"
  q_estado :: "string option"
  q_desde :: "string option"
  q_hasta :: "string option"

datatype payload =
    Created string string "string option"
  | Validation_errors "(string \<times> string) list"
  | Failure string
  | Not_found
  | Not_found_msg string
  | Select_failed string
  | One report
  | Many "report list"

text \<open>
  What the client receives: a status and a JSON body, or nothing at all when the Node
  process has ended before any answer was sent (\<open>No_response\<close>).
\<close>

datatype response = Response (status: nat) (payload: payload) | No_response

text \<open>
  The environment: configuration read from \<^verbatim>\<open>process.env\<close>, the values of
  \<^verbatim>\<open>uuidv4()\<close> and of the clock, and the answers of the libraries and services the
  servers call. \<open>sendMail\<close> is \<open>Some e\<close> when \<^verbatim>\<open>transporter.sendMail\<close> rejects with
  \<open>e\<close>; \<open>image_error s\<close> is \<open>Some e\<close> when loading or drawing the image \<open>s\<close> throws;
  \<open>doc_y ops\<close> is pdfkit's cursor \<^verbatim>\<open>doc.y\<close> after the operations \<open>ops\<close>;
  \<open>createWriteStream p\<close> is \<open>Some e\<close> when the write stream that
  \<^verbatim>\<open>fs.createWriteStream\<close> opens on the path \<open>p\<close> emits the error \<open>e\<close> (\<^verbatim>\<open>ENOENT\<close>
  when the directory of \<open>p\<close> does not exist). The Supabase
  client does not throw: it returns \<^verbatim>\<open>{ data, error }\<close>, and \<open>storage_upload\<close>,
  \<open>insert_error\<close>, \<open>update_error\<close> and \<open>select_error\<close> are the \<^verbatim>\<open>error\<close> it returns.
\<close>

record env =
  uuidv4 :: string
  now :: string
  clock_update :: string
  clock_pdf :: string
  BASE_URL :: string
  APP_NAME :: string
  SMTP_HOST :: "string option"
  SMTP_USER :: "string option"
  SMTP_PASS :: "string option"
  sendMail :: "error option"
  QRCode_toDataURL :: "string \<Rightarrow> error + string"
  image_error :: "src \<Rightarrow> error option"
  createWriteStream :: "string \<Rightarrow> error option"
  doc_y :: "draw list \<Rightarrow> real"
  toLocaleString :: "string \<Rightarrow> string"
  storage_upload :: "string \<Rightarrow> string \<Rightarrow> error option"
  getPublicUrl :: "string \<Rightarrow> string \<Rightarrow> string"
  insert_error :: "error option"
  update_error :: "error option"
  select_error :: "error option"

text \<open>The state of part_000: the SQLite table and the files below \<^verbatim>\<open>__dirname\<close>.\<close>

record disk =
  db :: "report list"
  fs :: "string \<rightharpoonup> content"

text \<open>The state of server.js: the Supabase table and the objects of its buckets,
  keyed by (bucket, path), each with its content type.\<close>

record cloud =
  informes :: "report list"
  objects :: "string \<times> string \<rightharpoonup> content \<times> string"

section \<open>Helpers of both servers\<close>

text \<open>The last error-handling middleware of both files (part_000 lines 309--312,
  server.js lines 258--261).\<close>

definition error_handler :: "error \<Rightarrow> response" where
  "error_handler err = (case err of Error message \<Rightarrow> Response 500 (Failure message))"

text \<open>
  \<^verbatim>\<open>text.replace(/\s+/g, '_')\<close>: each run of white space becomes one underscore.
  The flag says that the previous character was white space. White space is the ASCII
  part of \<^verbatim>\<open>\s\<close> (space, tab, line feed, vertical tab, form feed, carriage return).
\<close>

definition is_space :: "char \<Rightarrow> bool" where
  "is_space c = (c = CHR 0x20 \<or> c = CHR 0x09 \<or> c = CHR 0x0A \<or> c = CHR 0x0B \<or> c = CHR 0x0C \<or> c = CHR 0x0D)"

fun replace_ws :: "bool \<Rightarrow> string \<Rightarrow> string" where
  "replace_ws prev [] = []"
| "replace_ws prev (c # cs) =
     (if is_space c then (if prev then [] else ''_'') @ replace_ws True cs
      else c # replace_ws False cs)"

text \<open>\<^verbatim>\<open>path.basename(p)\<close> for a path that does not end in a slash.\<close>

definition basename :: "string \<Rightarrow> string" where
  "basename p = rev (takeWhile (\<lambda>c. c \<noteq> CHR ''/'') (rev p))"

text \<open>\<^verbatim>\<open>path.dirname(p)\<close> for such a path with a slash in it.\<close>

definition dirname :: "string \<Rightarrow> string" where
  "dirname p = rev (drop 1 (dropWhile (\<lambda>c. c \<noteq> CHR ''/'') (rev p)))"

text \<open>
  \<^verbatim>\<open>getTransporter\<close> (both files): no transport unless host, user and password are
  all set. \<open>notify\<close> is the mail step of both handlers,
  \<^verbatim>\<open>if (transporter) { await transporter.sendMail({...}); }\<close>: it throws what
  \<^verbatim>\<open>sendMail\<close> rejects with. The message itself is not modelled.
\<close>

definition getTransporter :: "env \<Rightarrow> bool" where
  "getTransporter e = (truthy (SMTP_HOST e) \<and> truthy (SMTP_USER e) \<and> truthy (SMTP_PASS e))"

definition notify :: "env \<Rightarrow> error option" where
  "notify e = (if getTransporter e then sendMail e else None)"

text \<open>
  The text parts of the document: the header and the five labelled fields
  (\<^verbatim>\<open>field(title, value)\<close> prints \<^verbatim>\<open>value || '-'\<close>). The label of the client line
  differs between the files. Accented letters of the captions are written without the
  accent. Fonts, sizes and rules are not recorded.
\<close>

definition field :: "string \<Rightarrow> string option \<Rightarrow> draw list" where
  "field title v = [Txt title, Txt (or_else v ''-'')]"

definition header_and_fields :: "env \<Rightarrow> string \<Rightarrow> report \<Rightarrow> draw list" where
  "header_and_fields e client_label r =
     [Txt (APP_NAME e),
      Txt (''Reporte: '' @ show_js (num_reporte r) @ ''    Fecha: '' @ toLocaleString e (created_at r)),
      Txt (''Usuario: '' @ show_js (usuario r)),
      Txt (''Telefono: '' @ show_js (telefono r)),
      Txt (client_label @ show_js (cliente r))]
     @ field ''Tipo de equipo'' (tipo_equipo r)
     @ field ''Tipo de servicio'' (tipo_servicio r)
     @ field ''Diagnostico'' (diagnostico r)
     @ field ''Trabajos realizados'' (trabajos r)
     @ field ''Observaciones'' (observaciones r)"

text \<open>
  The photo section: skipped when there is no photo; otherwise the title, then the
  grid from \<open>x = 40\<close> and the cursor \<^verbatim>\<open>doc.y\<close> below the title.
\<close>

definition fotos_section :: "env \<Rightarrow> (string \<Rightarrow> src) \<Rightarrow> string list \<Rightarrow> draw list \<Rightarrow> draw list" where
  "fotos_section e mk photos sofar =
     (if photos = [] then []
      else [Txt ''Registro fotografico'']
           @ photo_loop (\<lambda>s. image_error e s = None) mk photos 40
               (doc_y e (sofar @ [Txt ''Registro fotografico''])))"

text \<open>
  The signature section: the title, then each signature that is present, drawn at a
  fixed place (a failed load is caught) and captioned.
\<close>

definition firma :: "env \<Rightarrow> src option \<Rightarrow> string \<Rightarrow> real \<Rightarrow> real \<Rightarrow> real \<Rightarrow> draw list" where
  "firma e s caption x cx yStart =
     (case s of
        None \<Rightarrow> []
      | Some i \<Rightarrow> (if image_error e i = None then [Image i x yStart (Width 180)] else [])
                  @ [TxtAt caption cx (yStart + 90)])"

definition firmas_section :: "env \<Rightarrow> src option \<Rightarrow> src option \<Rightarrow> draw list \<Rightarrow> draw list" where
  "firmas_section e tecnico cliente' sofar =
     (let yStart = doc_y e (sofar @ [Txt ''Firmas''])
      in [Txt ''Firmas'']
         @ firma e tecnico ''Tecnico'' 60 100 yStart
         @ firma e cliente' ''Cliente'' 320 360 yStart)"

text \<open>The page of an A4 pdfkit document, in points.\<close>

definition page_width :: real where "page_width = 595.28"
definition page_height :: real where "page_height = 841.89"

definition publicReportURL :: "env \<Rightarrow> report \<Rightarrow> string" where
  "publicReportURL e r = BASE_URL e @ ''/public/report.html?id='' @ report_id r"

definition first_part :: "char \<Rightarrow> string \<Rightarrow> string" where
  "first_part c s = (case split_on c s of [] \<Rightarrow> [] | p # ps \<Rightarrow> p)"

definition src_if :: "(string \<Rightarrow> src) \<Rightarrow> string option \<Rightarrow> src option" where
  "src_if mk v = (if truthy v then map_option mk v else None)"


section \<open>The SQLite server (part_000)\<close>

text \<open>
  \<^verbatim>\<open>saveBase64PNG\<close> (lines 91--94). Without a comma \<^verbatim>\<open>dataURL.split(',')[1]\<close> is
  \<^verbatim>\<open>undefined\<close> and \<^verbatim>\<open>Buffer.from(undefined, 'base64')\<close> throws a TypeError;
  with one, \<^verbatim>\<open>fs.writeFileSync\<close> creates or overwrites the file. Paths are relative to
  \<^verbatim>\<open>__dirname\<close>, and \<^verbatim>\<open>path.join\<close> is concatenation.
\<close>

definition not_a_string :: error where
  "not_a_string = Error ''The first argument must be of type string or an instance of Buffer, ArrayBuffer, or Array or an Array-like Object. Received undefined''"

definition saveBase64PNG :: "string \<Rightarrow> string \<Rightarrow> (string \<rightharpoonup> content) \<Rightarrow> error + (string \<rightharpoonup> content)" where
  "saveBase64PNG dataURL outPath files =
     (case index (split_on CHR '','' dataURL) 1 of
        None \<Rightarrow> Inl not_a_string
      | Some base64 \<Rightarrow> Inr (files(outPath \<mapsto> Base64 base64)))"

text \<open>
  The multer middleware \<^verbatim>\<open>cpUpload\<close> (lines 80--88 and 201--204): each file part must
  belong to \<^verbatim>\<open>fotos\<close> or \<^verbatim>\<open>anexos\<close> with fewer than ten parts of that field before
  it, its MIME type must match \<^verbatim>\<open>/jpeg|jpg|png|pdf/\<close> and it must not exceed 5 MB.
  A refused part ends the request through \<^verbatim>\<open>next(err)\<close>.
\<close>

fun contains :: "string \<Rightarrow> string \<Rightarrow> bool" where
  "contains needle [] = (needle = [])"
| "contains needle (c # cs) = (take (length needle) (c # cs) = needle \<or> contains needle cs)"

definition fileFilter :: "upload \<Rightarrow> bool" where
  "fileFilter f =
     (contains ''jpeg'' (mimetype f) \<or> contains ''jpg'' (mimetype f)
      \<or> contains ''png'' (mimetype f) \<or> contains ''pdf'' (mimetype f))"

fun cpUpload :: "nat \<Rightarrow> nat \<Rightarrow> upload list \<Rightarrow> error option" where
  "cpUpload nf na [] = None"
| "cpUpload nf na (f # rest) =
     (if (fieldname f = ''fotos'' \<and> nf < 10) \<or> (fieldname f = ''anexos'' \<and> na < 10) then
        (if \<not> fileFilter f then Some (Error ''Tipo de archivo no permitido'')
         else if fsize f > 5 * 1024 * 1024 then Some (Error ''File too large'')
         else cpUpload (if fieldname f = ''fotos'' then Suc nf else nf)
                       (if fieldname f = ''fotos'' then na else Suc na) rest)
      else Some (Error ''Unexpected field''))"

definition req_files :: "string \<Rightarrow> request \<Rightarrow> upload list" where
  "req_files name rq = filter (\<lambda>f. fieldname f = name) (parts rq)"

text \<open>
  The validation chains of the route (lines 209--213) and \<^verbatim>\<open>validationResult\<close>:
  one error (path, message) for each chain whose field is absent or empty. The
  messages are written without their accents.
\<close>

definition validators :: "(string \<times> string) list" where
  "validators =
     [(''num_reporte'', ''Numero de reporte requerido''),
      (''usuario'', ''Usuario requerido''),
      (''cliente'', ''Cliente requerido'')]"

definition validationResult :: "(string \<times> string) list \<Rightarrow> request \<Rightarrow> (string \<times> string) list" where
  "validationResult checks rq = filter (\<lambda>check. \<not> truthy (body rq (fst check))) checks"

text \<open>The three statements on the table: the insert (\<^verbatim>\<open>id\<close> is the primary key),
  the point lookup and the update of the document reference.\<close>

definition sql_insert :: "report \<Rightarrow> report list \<Rightarrow> error + report list" where
  "sql_insert r rows =
     (if report_id r \<in> set (map report_id rows)
      then Inl (Error ''SQLITE_CONSTRAINT: UNIQUE constraint failed: reports.id'')
      else Inr (rows @ [r]))"

definition sql_get :: "string \<Rightarrow> report list \<Rightarrow> report option" where
  "sql_get i rows = find (\<lambda>r. report_id r = i) rows"

definition sql_update_pdf :: "string \<Rightarrow> string \<Rightarrow> string \<Rightarrow> report list \<Rightarrow> report list" where
  "sql_update_pdf p t i rows =
     map (\<lambda>r. if report_id r = i then r\<lparr>pdf_path := Some p, updated_at := t\<rparr> else r) rows"

text \<open>
  \<^verbatim>\<open>generatePDF\<close> (lines 105--185). The QR image is generated and saved outside any
  \<^verbatim>\<open>try\<close>; only the caption and the drawing of the saved image are inside one
  (lines 177--180). The returned reference is \<^verbatim>\<open>'/uploads/' + basename(pdfFile)\<close>.
  The document is entered into the files when the stream finishes.

  The document is piped into \<^verbatim>\<open>fs.createWriteStream(pdfFile)\<close> (lines 113--114) and
  nothing listens to the error event of that stream. When the stream fails, Node ends
  the process on the unhandled event, the promise on \<^verbatim>\<open>'finish'\<close> (line 183) never
  resolves and the request is never answered: the result is \<open>None\<close>. This is what a
  \<^verbatim>\<open>num_reporte\<close> or \<^verbatim>\<open>usuario\<close> with a slash does, since \<open>pdfFile\<close> then lies in a
  directory below \<^verbatim>\<open>uploads/\<close> that nothing creates; were the directory there, the
  document would be written into it and the returned reference, built from the base
  name alone, would name no file. The failed open arrives while \<^verbatim>\<open>generatePDF\<close>
  awaits the QR library; whether the QR file is still written, or the 500 for a text the
  QR library rejects still sent, before the process ends is a race: the model lets the
  stream error come first and leaves the files as they were.
\<close>

definition pdfFile :: "report \<Rightarrow> string" where
  "pdfFile r =
     ''/uploads/'' @ replace_ws False
        (''Reporte_'' @ show_js (num_reporte r) @ ''_'' @ show_js (usuario r) @ ''_''
         @ first_part CHR ''T'' (created_at r) @ ''.pdf'')"

definition publicPDFURL_disk :: "env \<Rightarrow> report \<Rightarrow> string" where
  "publicPDFURL_disk e r = BASE_URL e @ or_else (pdf_path r) (''/uploads/'' @ basename (pdfFile r))"

definition qrPath :: "report \<Rightarrow> string" where
  "qrPath r = ''/uploads/qr_'' @ report_id r @ ''.png''"

definition body_disk :: "env \<Rightarrow> report \<Rightarrow> draw list" where
  "body_disk e r =
     (let ops1 = header_and_fields e ''Tecnico / Lugar: '' r;
          ops2 = ops1 @ fotos_section e File (fotos r) ops1
      in ops2 @ firmas_section e (src_if File (firma_tecnico r)) (src_if File (firma_cliente r)) ops2)"

definition qr_disk :: "env \<Rightarrow> report \<Rightarrow> draw list" where
  "qr_disk e r =
     [TxtAt ''Escanee para ver el reporte y PDF online'' 40 (page_height - 60)]
     @ (if image_error e (File (qrPath r)) = None
        then [Image (File (qrPath r)) (page_width - 150) (page_height - 100) (Width 90)]
        else [])"

definition generatePDF_disk :: "env \<Rightarrow> report \<Rightarrow> (string \<rightharpoonup> content) \<Rightarrow> (error + string) option \<times> (string \<rightharpoonup> content)" where
  "generatePDF_disk e r files =
     (case createWriteStream e (pdfFile r) of
        Some err \<Rightarrow> (None, files)
      | None \<Rightarrow>
          (case QRCode_toDataURL e (publicReportURL e r @ ''|'' @ publicPDFURL_disk e r) of
             Inl err \<Rightarrow> (Some (Inl err), files)
           | Inr qrDataURL \<Rightarrow>
               (case saveBase64PNG qrDataURL (qrPath r) files of
                  Inl err \<Rightarrow> (Some (Inl err), files)
                | Inr files1 \<Rightarrow>
                    (Some (Inr (''/uploads/'' @ basename (pdfFile r))),
                     files1(pdfFile r \<mapsto> Rendered (body_disk e r @ qr_disk e r))))))"

text \<open>
  The handler of \<^verbatim>\<open>POST /api/reports\<close> (lines 206--275). \<open>post_reports_try\<close> is the
  body of its \<^verbatim>\<open>try\<close> after the validation check; what it throws goes to
  \<^verbatim>\<open>next(e)\<close> and so to the error handler. The state returned with an error holds
  what had been written before the throw. When \<^verbatim>\<open>generatePDF\<close> ends the process
  (\<open>None\<close>), the record is already inserted, without a document reference, and the
  client receives nothing.
\<close>

definition save_firma :: "string option \<Rightarrow> string \<Rightarrow> (string \<rightharpoonup> content) \<Rightarrow> error + (string option \<times> (string \<rightharpoonup> content))" where
  "save_firma v outPath files =
     (case v of
        None \<Rightarrow> Inr (None, files)
      | Some dataURL \<Rightarrow>
          if dataURL = [] then Inr (None, files)
          else (case saveBase64PNG dataURL outPath files of
                  Inl err \<Rightarrow> Inl err
                | Inr files' \<Rightarrow> Inr (Some outPath, files')))"

definition new_report :: "string \<Rightarrow> string \<Rightarrow> (string \<rightharpoonup> string) \<Rightarrow> string option \<Rightarrow> string option \<Rightarrow> string list \<Rightarrow> string list \<Rightarrow> report" where
  "new_report i t data ft fc photos annexes =
     \<lparr>report_id = i, created_at = t, updated_at = t,
      num_reporte = data ''num_reporte'', usuario = data ''usuario'', cliente = data ''cliente'',
      telefono = data ''telefono'', tipo_equipo = data ''tipo_equipo'',
      tipo_servicio = data ''tipo_servicio'', diagnostico = data ''diagnostico'',
      trabajos = data ''trabajos'', observaciones = data ''observaciones'',
      estado = or_else (data ''estado'') ''ENVIADO'',
      firma_tecnico = ft, firma_cliente = fc, fotos = photos, anexos = annexes,
      pdf_path = None\<rparr>"

definition view_url :: "env \<Rightarrow> string \<Rightarrow> string" where
  "view_url e i = BASE_URL e @ ''/public/report.html?id='' @ i"

definition render_and_notify :: "env \<Rightarrow> string \<Rightarrow> report list \<Rightarrow> (string \<rightharpoonup> content) \<Rightarrow> (error + response) option \<times> disk" where
  "render_and_notify e i rows files =
     (case sql_get i rows of
        None \<Rightarrow> (Some (Inl (Error ''Cannot read properties of undefined'')), \<lparr>db = rows, fs = files\<rparr>)
      | Some r \<Rightarrow>
          (case generatePDF_disk e r files of
             (None, files') \<Rightarrow> (None, \<lparr>db = rows, fs = files'\<rparr>)
           | (Some (Inl err), files') \<Rightarrow> (Some (Inl err), \<lparr>db = rows, fs = files'\<rparr>)
           | (Some (Inr pdfPath), files') \<Rightarrow>
               (let st' = \<lparr>db = sql_update_pdf pdfPath (clock_update e) i rows, fs = files'\<rparr>
                in case notify e of
                     Some err \<Rightarrow> (Some (Inl err), st')
                   | None \<Rightarrow>
                       (Some (Inr (Response 200 (Created i (BASE_URL e @ pdfPath) (Some (view_url e i))))),
                        st'))))"

definition post_reports_try :: "env \<Rightarrow> request \<Rightarrow> disk \<Rightarrow> (error + response) option \<times> disk" where
  "post_reports_try e rq st =
     (let i = uuidv4 e; data = body rq
      in case save_firma (data ''firma_tecnico'') (''/uploads/firma_tecnico_'' @ i @ ''.png'') (fs st) of
           Inl err \<Rightarrow> (Some (Inl err), st)
         | Inr (firmaTecnicoPath, files1) \<Rightarrow>
             (case save_firma (data ''firma_cliente'') (''/uploads/firma_cliente_'' @ i @ ''.png'') files1 of
                Inl err \<Rightarrow> (Some (Inl err), st\<lparr>fs := files1\<rparr>)
              | Inr (firmaClientePath, files2) \<Rightarrow>
                  (let photos = map (\<lambda>f. ''/uploads/'' @ basename (fpath f)) (req_files ''fotos'' rq);
                       annexes = map (\<lambda>f. ''/uploads/'' @ basename (fpath f)) (req_files ''anexos'' rq)
                   in case sql_insert (new_report i (now e) data firmaTecnicoPath firmaClientePath photos annexes) (db st) of
                        Inl err \<Rightarrow> (Some (Inl err), st\<lparr>fs := files2\<rparr>)
                      | Inr rows \<Rightarrow> render_and_notify e i rows files2)))"

definition post_reports :: "env \<Rightarrow> request \<Rightarrow> disk \<Rightarrow> response \<times> disk" where
  "post_reports e rq st =
     (case cpUpload 0 0 (parts rq) of
        Some err \<Rightarrow> (error_handler err, st)
      | None \<Rightarrow>
          if validationResult validators rq \<noteq> []
          then (Response 400 (Validation_errors (validationResult validators rq)), st)
          else (case post_reports_try e rq st of
                  (None, st') \<Rightarrow> (No_response, st')
                | (Some (Inl err), st') \<Rightarrow> (error_handler err, st')
                | (Some (Inr res), st') \<Rightarrow> (res, st')))"




text \<open>\<^verbatim>\<open>GET /api/reports/:id\<close> (lines 290--296).\<close>

definition get_report :: "string \<Rightarrow> disk \<Rightarrow> response" where
  "get_report i st =
     (case sql_get i (db st) of
        None \<Rightarrow> Response 404 Not_found
      | Some row \<Rightarrow> Response 200 (One row))"


section \<open>The Supabase server (server.js)\<close>

text \<open>
  \<^verbatim>\<open>uploadToStorage\<close> (lines 46--55): an upload with \<^verbatim>\<open>upsert: true\<close>, so the
  object at (bucket, path) is created or replaced; the error the client returns is
  thrown; the reference is the public URL of the path.
\<close>

definition uploadToStorage :: "env \<Rightarrow> string \<Rightarrow> string \<Rightarrow> content \<Rightarrow> string \<Rightarrow> cloud \<Rightarrow> (error + string) \<times> cloud" where
  "uploadToStorage e bucket filePath buffer contentType st =
     (case storage_upload e bucket filePath of
        Some err \<Rightarrow> (Inl err, st)
      | None \<Rightarrow>
          (Inr (getPublicUrl e bucket filePath),
           st\<lparr>objects := (objects st)((bucket, filePath) \<mapsto> (buffer, contentType))\<rparr>))"

text \<open>\<^verbatim>\<open>saveBase64ToBuffer\<close> (lines 57--60).\<close>

definition saveBase64ToBuffer :: "string \<Rightarrow> error + content" where
  "saveBase64ToBuffer dataURL =
     (case index (split_on CHR '','' dataURL) 1 of
        None \<Rightarrow> Inl not_a_string
      | Some base64 \<Rightarrow> Inr (Base64 base64))"

text \<open>
  \<^verbatim>\<open>generatePDF\<close> (lines 62--143). Nothing of the QR section is inside a \<^verbatim>\<open>try\<close>:
  the encoding, the decoding of its data URL and the drawing of the image can each
  throw. The document is uploaded and its public URL returned.
\<close>

definition pdfPath_cloud :: "env \<Rightarrow> report \<Rightarrow> string" where
  "pdfPath_cloud e r =
     ''pdfs/'' @ report_id r @ ''/'' @ replace_ws False
        (''Reporte_'' @ show_js (num_reporte r) @ ''_'' @ show_js (usuario r) @ ''_''
         @ take 10 (clock_pdf e) @ ''.pdf'')"

definition publicPDFURL_cloud :: "env \<Rightarrow> report \<Rightarrow> string" where
  "publicPDFURL_cloud e r = BASE_URL e @ ''/'' @ pdfPath_cloud e r"

definition body_cloud :: "env \<Rightarrow> report \<Rightarrow> string list \<Rightarrow> string option \<Rightarrow> string option \<Rightarrow> draw list" where
  "body_cloud e r photos ft fc =
     (let ops1 = header_and_fields e ''Cliente: '' r;
          ops2 = ops1 @ fotos_section e Remote photos ops1
      in ops2 @ firmas_section e (src_if Remote ft) (src_if Remote fc) ops2)"

definition generatePDF_cloud :: "env \<Rightarrow> report \<Rightarrow> string list \<Rightarrow> string option \<Rightarrow> string option \<Rightarrow> cloud \<Rightarrow> (error + string) \<times> cloud" where
  "generatePDF_cloud e r photos ft fc st =
     (case QRCode_toDataURL e (publicReportURL e r @ ''|'' @ publicPDFURL_cloud e r) of
        Inl err \<Rightarrow> (Inl err, st)
      | Inr qrDataURL \<Rightarrow>
          (case saveBase64ToBuffer qrDataURL of
             Inl err \<Rightarrow> (Inl err, st)
           | Inr qrBuffer \<Rightarrow>
               (case image_error e (Buf qrBuffer) of
                  Some err \<Rightarrow> (Inl err, st)
                | None \<Rightarrow>
                    uploadToStorage e ''informes'' (pdfPath_cloud e r)
                      (Rendered (body_cloud e r photos ft fc
                         @ [Image (Buf qrBuffer) (page_width - 150) (page_height - 120) (Width 90)]))
                      ''application/pdf'' st)))"

text \<open>
  The handler of \<^verbatim>\<open>POST /api/informes\<close> (lines 160--241). The route registers the
  multer middleware (no limit, no filter: only a part of another field is refused) and
  no validation chain, so \<^verbatim>\<open>validationResult(req)\<close> has nothing to report. The
  table's schema is not in the repository: the insert fails when the client returns an
  error, and \<^verbatim>\<open>inserted[0]\<close> is the row as sent. The result of the update of
  \<^verbatim>\<open>pdf_path\<close> is awaited and not looked at (line 221).
\<close>

definition upload_fields :: "upload list \<Rightarrow> error option" where
  "upload_fields ps =
     (if list_all (\<lambda>f. fieldname f = ''fotos'' \<or> fieldname f = ''anexos'') ps then None
      else Some (Error ''Unexpected field''))"

definition upload_firma :: "env \<Rightarrow> string option \<Rightarrow> string \<Rightarrow> cloud \<Rightarrow> (error + string option) \<times> cloud" where
  "upload_firma e v filePath st =
     (case v of
        None \<Rightarrow> (Inr None, st)
      | Some dataURL \<Rightarrow>
          if dataURL = [] then (Inr None, st)
          else (case saveBase64ToBuffer dataURL of
                  Inl err \<Rightarrow> (Inl err, st)
                | Inr buffer \<Rightarrow>
                    (case uploadToStorage e ''informes'' filePath buffer ''image/png'' st of
                       (Inl err, st') \<Rightarrow> (Inl err, st')
                     | (Inr url, st') \<Rightarrow> (Inr (Some url), st'))))"

fun upload_all :: "env \<Rightarrow> string \<Rightarrow> upload list \<Rightarrow> cloud \<Rightarrow> (error + string list) \<times> cloud" where
  "upload_all e prefix [] st = (Inr [], st)"
| "upload_all e prefix (f # rest) st =
     (case uploadToStorage e ''informes'' (prefix @ originalname f) (fbuffer f) (mimetype f) st of
        (Inl err, st') \<Rightarrow> (Inl err, st')
      | (Inr url, st') \<Rightarrow>
          (case upload_all e prefix rest st' of
             (Inl err, st'') \<Rightarrow> (Inl err, st'')
           | (Inr urls, st'') \<Rightarrow> (Inr (url # urls), st'')))"

definition supabase_insert :: "env \<Rightarrow> report \<Rightarrow> report list \<Rightarrow> error + report list" where
  "supabase_insert e r rows =
     (case insert_error e of Some err \<Rightarrow> Inl err | None \<Rightarrow> Inr (rows @ [r]))"

definition supabase_update_pdf :: "env \<Rightarrow> string \<Rightarrow> string \<Rightarrow> report list \<Rightarrow> report list" where
  "supabase_update_pdf e p i rows =
     (case update_error e of
        Some err \<Rightarrow> rows
      | None \<Rightarrow> map (\<lambda>r. if report_id r = i then r\<lparr>pdf_path := Some p\<rparr> else r) rows)"

definition insert_and_render :: "env \<Rightarrow> request \<Rightarrow> string option \<Rightarrow> string option \<Rightarrow> string list \<Rightarrow> string list \<Rightarrow> cloud \<Rightarrow> (error + response) \<times> cloud" where
  "insert_and_render e rq ft fc photos annexes st =
     (let i = uuidv4 e; r = new_report i (now e) (body rq) ft fc photos annexes
      in case supabase_insert e r (informes st) of
           Inl err \<Rightarrow> (Inl err, st)
         | Inr rows \<Rightarrow>
             (case generatePDF_cloud e r photos ft fc (st\<lparr>informes := rows\<rparr>) of
                (Inl err, st') \<Rightarrow> (Inl err, st')
              | (Inr pdfUrl, st') \<Rightarrow>
                  (let st'' = st'\<lparr>informes := supabase_update_pdf e pdfUrl i (informes st')\<rparr>
                   in case notify e of
                        Some err \<Rightarrow> (Inl err, st'')
                      | None \<Rightarrow> (Inr (Response 200 (Created i pdfUrl None)), st''))))"

definition store_uploads :: "env \<Rightarrow> request \<Rightarrow> cloud \<Rightarrow> (error + string option \<times> string option \<times> string list \<times> string list) \<times> cloud" where
  "store_uploads e rq st =
     (let i = uuidv4 e; data = body rq
      in case upload_firma e (data ''firma_tecnico'') (''firmas/'' @ i @ ''_tecnico.png'') st of
           (Inl err, st1) \<Rightarrow> (Inl err, st1)
         | (Inr firmaTecnicoUrl, st1) \<Rightarrow>
             (case upload_firma e (data ''firma_cliente'') (''firmas/'' @ i @ ''_cliente.png'') st1 of
                (Inl err, st2) \<Rightarrow> (Inl err, st2)
              | (Inr firmaClienteUrl, st2) \<Rightarrow>
                  (case upload_all e (''fotos/'' @ i @ ''_'') (req_files ''fotos'' rq) st2 of
                     (Inl err, st3) \<Rightarrow> (Inl err, st3)
                   | (Inr photos, st3) \<Rightarrow>
                       (case upload_all e (''anexos/'' @ i @ ''_'') (req_files ''anexos'' rq) st3 of
                          (Inl err, st4) \<Rightarrow> (Inl err, st4)
                        | (Inr annexes, st4) \<Rightarrow>
                            (Inr (firmaTecnicoUrl, firmaClienteUrl, photos, annexes), st4)))))"

definition post_informes_try :: "env \<Rightarrow> request \<Rightarrow> cloud \<Rightarrow> (error + response) \<times> cloud" where
  "post_informes_try e rq st =
     (case store_uploads e rq st of
        (Inl err, st') \<Rightarrow> (Inl err, st')
      | (Inr (firmaTecnicoUrl, firmaClienteUrl, photos, annexes), st') \<Rightarrow>
          insert_and_render e rq firmaTecnicoUrl firmaClienteUrl photos annexes st')"

definition post_informes :: "env \<Rightarrow> request \<Rightarrow> cloud \<Rightarrow> response \<times> cloud" where
  "post_informes e rq st =
     (case upload_fields (parts rq) of
        Some err \<Rightarrow> (error_handler err, st)
      | None \<Rightarrow>
          if validationResult [] rq \<noteq> []
          then (Response 400 (Validation_errors (validationResult [] rq)), st)
          else (case post_informes_try e rq st of
                  (Inl (Error message), st') \<Rightarrow> (Response 500 (Failure message), st')
                | (Inr res, st') \<Rightarrow> (res, st')))"

text \<open>
  \<^verbatim>\<open>GET /api/informes\<close> (lines 244--248) reads nothing of the request: every row,
  newest first. \<^verbatim>\<open>GET /api/informes/:id\<close> (lines 251--255): \<^verbatim>\<open>.single()\<close> returns an
  error unless exactly one row has the identifier.
\<close>

definition list_informes :: "env \<Rightarrow> query \<Rightarrow> cloud \<Rightarrow> response" where
  "list_informes e q st =
     (case select_error e of
        Some (Error message) \<Rightarrow> Response 500 (Select_failed message)
      | None \<Rightarrow> Response 200 (Many (rev (sort_key created_at (informes st)))))"

definition get_informe :: "env \<Rightarrow> string \<Rightarrow> cloud \<Rightarrow> response" where
  "get_informe e i st =
     (case select_error e of
        Some err \<Rightarrow> Response 404 (Not_found_msg ''Informe no encontrado'')
      | None \<Rightarrow>
          (case filter (\<lambda>r. report_id r = i) (informes st) of
             [row] \<Rightarrow> Response 200 (One row)
           | _ \<Rightarrow> Response 404 (Not_found_msg ''Informe no encontrado'')))"

section \<open>Predicates of the properties and concrete inputs\<close>

text \<open>A signature field that is present, not empty and has no comma: not a data URL.\<close>

definition malformed :: "string option \<Rightarrow> bool" where
  "malformed v = (case v of None \<Rightarrow> False | Some d \<Rightarrow> d \<noteq> [] \<and> CHR '','' \<notin> set d)"

text \<open>The rows a list endpoint answers with.\<close>

definition rows_of :: "response \<Rightarrow> report list" where
  "rows_of res = (case payload res of Many rows \<Rightarrow> rows | _ \<Rightarrow> [])"

text \<open>
  A concrete environment in which every service answers, and variations of it in which
  one of them fails. Its QR library is a toy that encodes the text as the payload of
  the data URL (and refuses a text with a comma, which would end the payload);
  \<open>read_payload\<close> is the matching reader. Its file system has the directory
  \<^verbatim>\<open>uploads/\<close> and no directory below it. \<open>env_qr_capacity\<close> has a QR library that,
  like the real one, rejects a text beyond the capacity of the largest symbol (2331
  bytes at the default error correction level).
\<close>

definition env0 :: env where
  "env0 =
     \<lparr>uuidv4 = ''r1'', now = ''2024-05-01T10:00:00.000Z'',
      clock_update = ''2024-05-01T10:00:02.000Z'', clock_pdf = ''2024-05-01T10:00:01.000Z'',
      BASE_URL = ''http://localhost:3000'', APP_NAME = ''Reportes de Servicio'',
      SMTP_HOST = Some ''smtp.example.com'', SMTP_USER = Some ''robot'', SMTP_PASS = Some ''secret'',
      sendMail = None,
      QRCode_toDataURL = (\<lambda>t. if CHR '','' \<in> set t then Inl (Error ''unsupported'')
                               else Inr (''data:image/png;base64,'' @ t)),
      image_error = (\<lambda>s. None),
      createWriteStream = (\<lambda>p. if dirname p = ''/uploads'' then None
                                else Some (Error ''ENOENT: no such file or directory'')),
      doc_y = (\<lambda>ops. 300),
      toLocaleString = (\<lambda>s. s),
      storage_upload = (\<lambda>b p. None),
      getPublicUrl = (\<lambda>b p. ''https://sb.example/'' @ b @ ''/'' @ p),
      insert_error = None, update_error = None, select_error = None\<rparr>"

definition env_update_fails :: env where
  "env_update_fails = env0\<lparr>update_error := Some (Error ''permission denied for table informes'')\<rparr>"

definition env_mail_down :: env where
  "env_mail_down = env0\<lparr>sendMail := Some (Error ''connect ECONNREFUSED'')\<rparr>"

definition env_qr_capacity :: env where
  "env_qr_capacity =
     env0\<lparr>QRCode_toDataURL :=
            (\<lambda>t. if length t > 2331
                 then Inl (Error ''The amount of data is too big to be stored in a QR Code'')
                 else Inr (''data:image/png;base64,'' @ t))\<rparr>"

definition env_qr_fails :: env where
  "env_qr_fails = env0\<lparr>QRCode_toDataURL := (\<lambda>t. Inl (Error ''The amount of data is too big to be stored in a QR Code''))\<rparr>"

definition env_qr_unreadable :: env where
  "env_qr_unreadable =
     env0\<lparr>image_error := (\<lambda>s. if s = File ''/uploads/qr_r1.png'' then Some (Error ''Unknown image format.'') else None)\<rparr>"

definition read_payload :: "content \<Rightarrow> string option" where
  "read_payload c = (case c of Base64 b \<Rightarrow> Some b | Bytes bs \<Rightarrow> None | Rendered ops \<Rightarrow> None)"

text \<open>
  The images a document draws from a buffer decoded from a data URL (in server.js that
  is the QR image), and what a reader reads from them.
\<close>

fun qr_images :: "draw list \<Rightarrow> content list" where
  "qr_images [] = []"
| "qr_images (Image (Buf c) x y w # ops) = c # qr_images ops"
| "qr_images (d # ops) = qr_images ops"

definition qr_texts :: "(content \<Rightarrow> string option) \<Rightarrow> content \<Rightarrow> string option list" where
  "qr_texts reader doc =
     (case doc of Rendered ops \<Rightarrow> map reader (qr_images ops) | Base64 b \<Rightarrow> [] | Bytes bs \<Rightarrow> [])"

text \<open>Concrete submissions, states, rows and queries.\<close>

definition rq_ok :: request where
  "rq_ok = \<lparr>body = map_of [(''num_reporte'', ''17''), (''usuario'', ''ana''), (''cliente'', ''acme'')],
            parts = []\<rparr>"

definition rq_no_num :: request where
  "rq_no_num = \<lparr>body = map_of [(''usuario'', ''ana''), (''cliente'', ''acme'')], parts = []\<rparr>"

definition rq_long_usuario :: request where
  "rq_long_usuario =
     \<lparr>body = map_of [(''num_reporte'', ''17''), (''usuario'', replicate 3000 CHR ''a''),
                     (''cliente'', ''acme'')],
      parts = []\<rparr>"

definition rq_slash :: request where
  "rq_slash = \<lparr>body = map_of [(''num_reporte'', ''17/3''), (''usuario'', ''ana''), (''cliente'', ''acme'')],
               parts = []\<rparr>"


definition rq_bad_firma :: request where
  "rq_bad_firma = \<lparr>body = map_of [(''num_reporte'', ''17''), (''usuario'', ''ana''), (''cliente'', ''acme''),
                                  (''firma_tecnico'', ''abc'')],
                   parts = []\<rparr>"

definition rq_bad_firma_no_num :: request where
  "rq_bad_firma_no_num = \<lparr>body = map_of [(''usuario'', ''ana''), (''cliente'', ''acme''),
                                         (''firma_tecnico'', ''abc'')],
                          parts = []\<rparr>"

definition rq_bad_firma_bad_file :: request where
  "rq_bad_firma_bad_file =
     \<lparr>body = map_of [(''usuario'', ''ana''), (''cliente'', ''acme''), (''firma_tecnico'', ''abc'')],
      parts = [\<lparr>fieldname = ''fotos'', originalname = ''notes.txt'', mimetype = ''text/plain'',
                fsize = 12, fpath = ''/uploads/1714557600000_notes.txt'', fbuffer = Bytes []\<rparr>]\<rparr>"

definition disk0 :: disk where
  "disk0 = \<lparr>db = [], fs = Map.empty\<rparr>"

definition cloud0 :: cloud where
  "cloud0 = \<lparr>informes = [], objects = Map.empty\<rparr>"

definition row_ana :: report where
  "row_ana = new_report ''a1'' ''2024-05-01T10:00:00.000Z''
               (map_of [(''num_reporte'', ''17''), (''usuario'', ''ana''), (''cliente'', ''acme'')])
               None None [] []"





section \<open>Properties\<close>

subsection \<open>The photo grid\<close>

lemma slot_funpow: "slot y0 i = (next_slot ^^ i) (0, 40, y0)"
  by (induction i) auto

lemma upt_filter_shift:
  "filter P [0..<Suc n] = (if P 0 then [0] else []) @ map Suc (filter (P \<circ> Suc) [0..<n])"
proof -
  have "[0..<Suc n] = 0 # map Suc [0..<n]"
    by (simp add: upt_conv_Cons map_Suc_upt del: upt_Suc)
  then show ?thesis by (simp add: filter_map del: upt_Suc)
qed

text \<open>The loop started anywhere: photo \<open>i\<close> is drawn, if it loads, at the \<open>i\<close>-th
  successor of the starting slot.\<close>

lemma photo_loop_placed:
  "placed p (photo_loop ok mk photos x y) =
     map (\<lambda>i. case (next_slot ^^ i) (p, x, y) of
                 (q, x', y') \<Rightarrow> (q, mk (photos ! i), x', y', Fit 180 140))
         (filter (\<lambda>i. ok (mk (photos ! i))) [0..<length photos])"
proof (induction photos arbitrary: p x y)
  case Nil
  then show ?case by simp
next
  case (Cons photo photos)
  have step: "next_slot (p, x, y) =
      (if (if x + 195 + 180 > 555 then y + 160 else y) + 140 > 740 then Suc p else p,
       if x + 195 + 180 > 555 then 40 else x + 195,
       if (if x + 195 + 180 > 555 then y + 160 else y) + 140 > 740 then 60
       else (if x + 195 + 180 > 555 then y + 160 else y))"
    by (simp add: next_slot_def Let_def)
  show ?case
    apply (simp only: length_Cons upt_filter_shift)
    apply (simp add: Let_def maxW_def maxH_def Cons.IH funpow_swap1 step comp_def del: upt_Suc)
    done
qed

text \<open>
  C5. For every list of photos, the images the photo section draws are, in order, the
  photos that load, photo \<open>i\<close> in the 180 x 140 box of slot \<open>i\<close>: the first slot at
  \<open>x = 40\<close> and \<^verbatim>\<open>doc.y\<close> on the current page, each next slot 195 further right, or
  at \<open>x = 40\<close> and 160 lower when its right edge would pass 555, and at \<open>y = 60\<close> on
  a new page when its bottom edge would pass 740.
\<close>

theorem photo_grid_follows_slots:
  "placed 0 (fotos_section e mk photos sofar) =
     map (\<lambda>i. case slot (doc_y e (sofar @ [Txt ''Registro fotografico''])) i of
                 (q, x, y) \<Rightarrow> (q, mk (photos ! i), x, y, Fit 180 140))
         (filter (\<lambda>i. image_error e (mk (photos ! i)) = None) [0..<length photos])"
  by (simp add: fotos_section_def photo_loop_placed slot_funpow)

text \<open>The grid has two columns, and no slot after the first reaches below 740.
  Starting at \<open>y = 500\<close>, the third photo opens a new page; a photo that does not
  load leaves its slot empty.\<close>

lemma slot_column: "fst (snd (slot y0 i)) = (if even i then 40 else 235)"
  by (induction i) (auto simp: next_slot_def Let_def split: prod.splits)

lemma slot_bottom: "snd (snd (slot y0 (Suc i))) + 140 \<le> 740"
  by (auto simp: next_slot_def Let_def split: prod.splits)

lemma five_slots_from_500:
  "map (slot 500) [0, 1, 2, 3, 4]
     = [(0, 40, 500), (0, 235, 500), (1, 40, 60), (1, 235, 60), (1, 40, 220)]"
  by (simp add: eval_nat_numeral next_slot_def)

lemma unloadable_photo_keeps_its_slot:
  "placed 0 (photo_loop (\<lambda>s. s \<noteq> File ''b'') File [''a'', ''b'', ''c''] 40 500)
     = [(0, File ''a'', 40, 500, Fit 180 140), (1, File ''c'', 40, 60, Fit 180 140)]"
  by (simp add: maxW_def maxH_def)

subsection \<open>The asset store\<close>

lemma split_on_ne: "split_on c s \<noteq> []"
  by (induction s) (auto split: list.splits)

text \<open>
  C8. Storing the same payload twice under the same bucket and path is storing it
  once: the second call, run on the state the first one left, returns the same
  reference and leaves that state as it is, and the object stored there is the payload
  (it replaces what was there). The same holds for \<^verbatim>\<open>saveBase64PNG\<close> on the files.
\<close>

theorem store_twice_is_store_once:
  "uploadToStorage e b p buf ct (snd (uploadToStorage e b p buf ct st)) = uploadToStorage e b p buf ct st
   \<and> (case uploadToStorage e b p buf ct st of
         (Inl err, st') \<Rightarrow> st' = st
       | (Inr url, st') \<Rightarrow> url = getPublicUrl e b p
                            \<and> objects st' = (objects st)((b, p) \<mapsto> (buf, ct)))
   \<and> (case saveBase64PNG d out files of
         Inl err \<Rightarrow> saveBase64PNG d out files = Inl err
       | Inr files' \<Rightarrow> saveBase64PNG d out files' = Inr files'
                        \<and> (\<exists>base64. files' = files(out \<mapsto> Base64 base64)))"
  by (auto simp: uploadToStorage_def saveBase64PNG_def split: option.splits)

subsection \<open>Malformed signatures\<close>

lemma split_on_no_sep: "c \<notin> set s \<Longrightarrow> split_on c s = [s]"
  by (induction s) auto

lemma payload_none: "CHR '','' \<notin> set d \<Longrightarrow> index (split_on CHR '','' d) (Suc 0) = None"
  by (simp add: split_on_no_sep index_def)

lemma save_firma_malformed: "malformed v \<Longrightarrow> save_firma v p files = Inl not_a_string"
  by (auto simp: malformed_def save_firma_def saveBase64PNG_def payload_none split: option.splits)

lemma save_firma_cases:
  "save_firma v p files = Inr (x, files') \<Longrightarrow> \<not> malformed v"
  using save_firma_malformed by fastforce

lemma save_firma_Inl: "save_firma v p files = Inl err \<Longrightarrow> err = not_a_string"
  by (auto simp: save_firma_def saveBase64PNG_def split: option.splits if_splits)

lemma upload_firma_malformed: "malformed v \<Longrightarrow> upload_firma e v p st = (Inl not_a_string, st)"
  by (auto simp: malformed_def upload_firma_def saveBase64ToBuffer_def payload_none split: option.splits)

text \<open>Uploads to the bucket leave the table alone.\<close>

lemma uploadToStorage_informes: "uploadToStorage e b p buf ct st = (r, st') \<Longrightarrow> informes st' = informes st"
  by (auto simp: uploadToStorage_def split: option.splits)

lemma upload_firma_informes: "upload_firma e v p st = (r, st') \<Longrightarrow> informes st' = informes st"
  by (auto simp: upload_firma_def split: option.splits sum.splits prod.splits if_splits
      dest: uploadToStorage_informes)

lemma upload_all_informes: "upload_all e pre ps st = (r, st') \<Longrightarrow> informes st' = informes st"
proof (induction ps arbitrary: st r st')
  case Nil
  then show ?case by simp
next
  case (Cons f rest)
  obtain r1 st1 where u: "uploadToStorage e ''informes'' (pre @ originalname f) (fbuffer f) (mimetype f) st = (r1, st1)"
    by (cases "uploadToStorage e ''informes'' (pre @ originalname f) (fbuffer f) (mimetype f) st")
  have s1: "informes st1 = informes st" using u by (rule uploadToStorage_informes)
  show ?case
  proof (cases r1)
    case (Inl err)
    with Cons.prems u s1 show ?thesis by simp
  next
    case (Inr url)
    obtain r2 st2 where a: "upload_all e pre rest st1 = (r2, st2)"
      by (cases "upload_all e pre rest st1")
    have s2: "informes st2 = informes st1" using a by (rule Cons.IH)
    from Cons.prems u Inr a have "st' = st2" by (auto split: sum.splits)
    with s1 s2 show ?thesis by simp
  qed
qed


lemma store_uploads_informes:
  assumes "store_uploads e rq st = (res, st')"
  shows "informes st' = informes st"
proof -
  let ?i = "uuidv4 e"
  obtain r1 st1 where a1: "upload_firma e (body rq ''firma_tecnico'') (''firmas/'' @ ?i @ ''_tecnico.png'') st = (r1, st1)"
    by (cases "upload_firma e (body rq ''firma_tecnico'') (''firmas/'' @ ?i @ ''_tecnico.png'') st")
  obtain r2 st2 where a2: "upload_firma e (body rq ''firma_cliente'') (''firmas/'' @ ?i @ ''_cliente.png'') st1 = (r2, st2)"
    by (cases "upload_firma e (body rq ''firma_cliente'') (''firmas/'' @ ?i @ ''_cliente.png'') st1")
  obtain r3 st3 where a3: "upload_all e (''fotos/'' @ ?i @ ''_'') (req_files ''fotos'' rq) st2 = (r3, st3)"
    by (cases "upload_all e (''fotos/'' @ ?i @ ''_'') (req_files ''fotos'' rq) st2")
  obtain r4 st4 where a4: "upload_all e (''anexos/'' @ ?i @ ''_'') (req_files ''anexos'' rq) st3 = (r4, st4)"
    by (cases "upload_all e (''anexos/'' @ ?i @ ''_'') (req_files ''anexos'' rq) st3")
  have f1: "informes st1 = informes st" using a1 by (rule upload_firma_informes)
  have f2: "informes st2 = informes st" using upload_firma_informes [OF a2] f1 by simp
  have f3: "informes st3 = informes st" using upload_all_informes [OF a3] f2 by simp
  have f4: "informes st4 = informes st" using upload_all_informes [OF a4] f3 by simp
  have "st' = st1 \<or> st' = st2 \<or> st' = st3 \<or> st' = st4"
    using assms a1 a2 a3 a4 by (auto simp: store_uploads_def Let_def split: sum.splits)
  with f1 f2 f3 f4 show ?thesis by auto
qed

lemma store_uploads_malformed:
  assumes "malformed (body rq ''firma_tecnico'') \<or> malformed (body rq ''firma_cliente'')"
  shows "\<exists>err. fst (store_uploads e rq st) = Inl err"
proof -
  let ?i = "uuidv4 e"
  obtain r1 st1 where a1: "upload_firma e (body rq ''firma_tecnico'') (''firmas/'' @ ?i @ ''_tecnico.png'') st = (r1, st1)"
    by (cases "upload_firma e (body rq ''firma_tecnico'') (''firmas/'' @ ?i @ ''_tecnico.png'') st")
  show ?thesis
  proof (cases r1)
    case (Inl err)
    with a1 show ?thesis by (simp add: store_uploads_def Let_def)
  next
    case r1: (Inr ft)
    with a1 have "\<not> malformed (body rq ''firma_tecnico'')"
      using upload_firma_malformed by fastforce
    with assms have "malformed (body rq ''firma_cliente'')" by simp
    then have "upload_firma e (body rq ''firma_cliente'') (''firmas/'' @ ?i @ ''_cliente.png'') st1 = (Inl not_a_string, st1)"
      by (rule upload_firma_malformed)
    with a1 r1 show ?thesis by (simp add: store_uploads_def Let_def)
  qed
qed

lemma post_informes_try_malformed:
  assumes "malformed (body rq ''firma_tecnico'') \<or> malformed (body rq ''firma_cliente'')"
    and "post_informes_try e rq st = (res, st')"
  shows "(\<exists>err. res = Inl err) \<and> informes st' = informes st"
proof -
  obtain u st1 where u: "store_uploads e rq st = (u, st1)"
    by (cases "store_uploads e rq st")
  from store_uploads_malformed [OF assms(1), of e st] u obtain err where "u = Inl err" by auto
  with assms(2) u store_uploads_informes [OF u] show ?thesis
    by (auto simp: post_informes_try_def)
qed

lemma post_informes_malformed:
  assumes "malformed (body rq ''firma_tecnico'') \<or> malformed (body rq ''firma_cliente'')"
  shows "status (fst (post_informes e rq st)) = 500 \<and> informes (snd (post_informes e rq st)) = informes st"
proof (cases "upload_fields (parts rq)")
  case (Some err)
  then show ?thesis by (simp add: post_informes_def error_handler_def split: error.splits)
next
  case None
  obtain res st' where t: "post_informes_try e rq st = (res, st')"
    by (cases "post_informes_try e rq st")
  from post_informes_try_malformed [OF assms t] None t show ?thesis
    by (auto simp: post_informes_def validationResult_def split: sum.splits error.splits)
qed

lemma post_reports_try_malformed:
  assumes "malformed (body rq ''firma_tecnico'') \<or> malformed (body rq ''firma_cliente'')"
    and "post_reports_try e rq st = (res, st')"
  shows "res = Some (Inl not_a_string) \<and> db st' = db st"
proof (cases "save_firma (body rq ''firma_tecnico'') (''/uploads/firma_tecnico_'' @ uuidv4 e @ ''.png'') (fs st)")
  case (Inl err)
  then have "err = not_a_string" by (rule save_firma_Inl)
  with assms(2) Inl show ?thesis by (auto simp: post_reports_try_def Let_def)
next
  case (Inr x)
  obtain ft files1 where x: "x = (ft, files1)" by (cases x)
  from Inr x have "\<not> malformed (body rq ''firma_tecnico'')" by (auto dest: save_firma_cases)
  with assms(1) have "malformed (body rq ''firma_cliente'')" by simp
  then have "save_firma (body rq ''firma_cliente'') (''/uploads/firma_cliente_'' @ uuidv4 e @ ''.png'') files1
      = Inl not_a_string" by (rule save_firma_malformed)
  with assms(2) Inr x show ?thesis by (auto simp: post_reports_try_def Let_def)
qed

lemma post_reports_malformed:
  assumes "malformed (body rq ''firma_tecnico'') \<or> malformed (body rq ''firma_cliente'')"
    and "cpUpload 0 0 (parts rq) = None" and "validationResult validators rq = []"
  shows "fst (post_reports e rq st) = error_handler not_a_string
       \<and> db (snd (post_reports e rq st)) = db st"
proof -
  obtain res st' where t: "post_reports_try e rq st = (res, st')"
    by (cases "post_reports_try e rq st")
  from post_reports_try_malformed [OF assms(1) t] assms(2,3) t show ?thesis
    by (simp add: post_reports_def)
qed

lemma post_reports_stopped_early:
  "cpUpload 0 0 (parts rq) = Some (Error m) \<Longrightarrow>
     post_reports e rq st = (Response 500 (Failure m), st)"
  "cpUpload 0 0 (parts rq) = None \<Longrightarrow> validationResult validators rq \<noteq> [] \<Longrightarrow>
     post_reports e rq st = (Response 400 (Validation_errors (validationResult validators rq)), st)"
  by (simp_all add: post_reports_def error_handler_def)

lemma post_informes_malformed_tecnico:
  assumes "malformed (body rq ''firma_tecnico'')" and "upload_fields (parts rq) = None"
  shows "fst (post_informes e rq st) = error_handler not_a_string"
proof -
  have "store_uploads e rq st = (Inl not_a_string, st)"
    by (simp add: store_uploads_def Let_def upload_firma_malformed [OF assms(1)])
  with assms(2) show ?thesis
    by (simp add: post_informes_def post_informes_try_def validationResult_def
        error_handler_def not_a_string_def)
qed

lemma status_error_handler: "status (error_handler err) = 500"
  by (cases err) (simp add: error_handler_def)

text \<open>
  C10 (as amended). When \<^verbatim>\<open>firma_tecnico\<close> or \<^verbatim>\<open>firma_cliente\<close> is a non-empty string
  without a comma, no record is created by either server, and the answer is decided
  by the first gate that stops the request. On \<^verbatim>\<open>POST /api/reports\<close>: 500 with
  multer's error when multer refuses a file part; otherwise 400 with the validation
  errors when a required field is missing or empty; otherwise 500 with the TypeError
  of the base64-decoding helper, thrown before the insert. On \<^verbatim>\<open>POST /api/informes\<close>:
  always 500, and it is the helper's TypeError when the file parts are accepted and
  \<^verbatim>\<open>firma_tecnico\<close> is the malformed field.
\<close>

theorem malformed_signature_creates_no_record:
  "malformed (body rq ''firma_tecnico'') \<or> malformed (body rq ''firma_cliente'') \<Longrightarrow>
     db (snd (post_reports e rq st)) = db st
     \<and> (cpUpload 0 0 (parts rq) = Some (Error m)
          \<longrightarrow> fst (post_reports e rq st) = Response 500 (Failure m))
     \<and> (cpUpload 0 0 (parts rq) = None \<and> validationResult validators rq \<noteq> []
          \<longrightarrow> fst (post_reports e rq st)
              = Response 400 (Validation_errors (validationResult validators rq)))
     \<and> (cpUpload 0 0 (parts rq) = None \<and> validationResult validators rq = []
          \<longrightarrow> fst (post_reports e rq st) = error_handler not_a_string
              \<and> status (fst (post_reports e rq st)) = 500)
     \<and> informes (snd (post_informes e rq cl)) = informes cl
     \<and> status (fst (post_informes e rq cl)) = 500
     \<and> (upload_fields (parts rq) = None \<and> malformed (body rq ''firma_tecnico'')
          \<longrightarrow> fst (post_informes e rq cl) = error_handler not_a_string)"
proof -
  assume a: "malformed (body rq ''firma_tecnico'') \<or> malformed (body rq ''firma_cliente'')"
  have d: "db (snd (post_reports e rq st)) = db st"
  proof (cases "cpUpload 0 0 (parts rq)")
    case None
    show ?thesis
    proof (cases "validationResult validators rq = []")
      case True
      with a None show ?thesis by (simp add: post_reports_malformed)
    next
      case False
      with None show ?thesis by (simp add: post_reports_stopped_early)
    qed
  next
    case (Some err)
    then show ?thesis by (cases err) (simp add: post_reports_stopped_early)
  qed
  have h: "cpUpload 0 0 (parts rq) = None \<and> validationResult validators rq = []
          \<longrightarrow> fst (post_reports e rq st) = error_handler not_a_string
              \<and> status (fst (post_reports e rq st)) = 500"
  proof (intro impI, elim conjE)
    assume "cpUpload 0 0 (parts rq) = None" and "validationResult validators rq = []"
    from post_reports_malformed [OF a this]
    have "fst (post_reports e rq st) = error_handler not_a_string" by simp
    then show "fst (post_reports e rq st) = error_handler not_a_string
              \<and> status (fst (post_reports e rq st)) = 500"
      by (simp add: status_error_handler)
  qed
  have c1: "cpUpload 0 0 (parts rq) = Some (Error m)
          \<longrightarrow> fst (post_reports e rq st) = Response 500 (Failure m)"
    by (simp add: post_reports_stopped_early)
  have c2: "cpUpload 0 0 (parts rq) = None \<and> validationResult validators rq \<noteq> []
          \<longrightarrow> fst (post_reports e rq st)
              = Response 400 (Validation_errors (validationResult validators rq))"
    by (simp add: post_reports_stopped_early)
  have i1: "informes (snd (post_informes e rq cl)) = informes cl"
    and i2: "status (fst (post_informes e rq cl)) = 500"
    using post_informes_malformed [OF a, of e cl] by simp_all
  have i3: "upload_fields (parts rq) = None \<and> malformed (body rq ''firma_tecnico'')
          \<longrightarrow> fst (post_informes e rq cl) = error_handler not_a_string"
    by (simp add: post_informes_malformed_tecnico)
  from d c1 c2 h i1 i2 i3 show ?thesis by blast
qed

text \<open>Three instances of C10 with \<^verbatim>\<open>firma_tecnico = abc\<close>. With the required fields
  present, the helper's TypeError is answered as a 500 by both servers and no record is
  created. With a text file among the photos, multer's error is answered as a 500,
  although \<^verbatim>\<open>num_reporte\<close> is missing too. With no file and no \<^verbatim>\<open>num_reporte\<close>, the
  validation answers 400.\<close>

theorem malformed_signature_creates_no_record_witness:
  "malformed (body rq_bad_firma ''firma_tecnico'')
   \<and> cpUpload 0 0 (parts rq_bad_firma) = None
   \<and> validationResult validators rq_bad_firma = []
   \<and> fst (post_reports env0 rq_bad_firma disk0) = error_handler not_a_string
   \<and> status (fst (post_reports env0 rq_bad_firma disk0)) = 500
   \<and> db (snd (post_reports env0 rq_bad_firma disk0)) = db disk0
   \<and> upload_fields (parts rq_bad_firma) = None
   \<and> fst (post_informes env0 rq_bad_firma cloud0) = error_handler not_a_string
   \<and> informes (snd (post_informes env0 rq_bad_firma cloud0)) = informes cloud0
   \<and> malformed (body rq_bad_firma_bad_file ''firma_tecnico'')
   \<and> cpUpload 0 0 (parts rq_bad_firma_bad_file) = Some (Error ''Tipo de archivo no permitido'')
   \<and> validationResult validators rq_bad_firma_bad_file \<noteq> []
   \<and> fst (post_reports env0 rq_bad_firma_bad_file disk0)
       = Response 500 (Failure ''Tipo de archivo no permitido'')
   \<and> malformed (body rq_bad_firma_no_num ''firma_tecnico'')
   \<and> cpUpload 0 0 (parts rq_bad_firma_no_num) = None
   \<and> validationResult validators rq_bad_firma_no_num = [(''num_reporte'', ''Numero de reporte requerido'')]
   \<and> status (fst (post_reports env0 rq_bad_firma_no_num disk0)) = 400
   \<and> db (snd (post_reports env0 rq_bad_firma_no_num disk0)) = db disk0"
proof -
  have a: "malformed (body rq_bad_firma ''firma_tecnico'')"
    "malformed (body rq_bad_firma_bad_file ''firma_tecnico'')"
    "malformed (body rq_bad_firma_no_num ''firma_tecnico'')"
    by (simp_all add: malformed_def rq_bad_firma_def rq_bad_firma_bad_file_def rq_bad_firma_no_num_def)
  have b: "cpUpload 0 0 (parts rq_bad_firma) = None"
    "validationResult validators rq_bad_firma = []"
    "upload_fields (parts rq_bad_firma) = None"
    by code_simp+
  have c: "cpUpload 0 0 (parts rq_bad_firma_bad_file) = Some (Error ''Tipo de archivo no permitido'')"
    by code_simp
  have v: "validationResult validators rq_bad_firma_bad_file \<noteq> []"
    by code_simp
  have n: "cpUpload 0 0 (parts rq_bad_firma_no_num) = None"
    "validationResult validators rq_bad_firma_no_num = [(''num_reporte'', ''Numero de reporte requerido'')]"
    by code_simp+
  from malformed_signature_creates_no_record [where rq = rq_bad_firma and e = env0 and st = disk0
      and cl = cloud0] a b
  have 1: "fst (post_reports env0 rq_bad_firma disk0) = error_handler not_a_string
      \<and> status (fst (post_reports env0 rq_bad_firma disk0)) = 500
      \<and> db (snd (post_reports env0 rq_bad_firma disk0)) = db disk0
      \<and> fst (post_informes env0 rq_bad_firma cloud0) = error_handler not_a_string
      \<and> informes (snd (post_informes env0 rq_bad_firma cloud0)) = informes cloud0"
    by blast
  from malformed_signature_creates_no_record [where rq = rq_bad_firma_bad_file and e = env0
      and st = disk0 and m = "''Tipo de archivo no permitido''"] a c
  have 2: "fst (post_reports env0 rq_bad_firma_bad_file disk0)
       = Response 500 (Failure ''Tipo de archivo no permitido'')"
    by blast
  from malformed_signature_creates_no_record [where rq = rq_bad_firma_no_num and e = env0
      and st = disk0] a n
  have "fst (post_reports env0 rq_bad_firma_no_num disk0)
         = Response 400 (Validation_errors (validationResult validators rq_bad_firma_no_num))
      \<and> db (snd (post_reports env0 rq_bad_firma_no_num disk0)) = db disk0"
    by simp
  then have 3: "status (fst (post_reports env0 rq_bad_firma_no_num disk0)) = 400
      \<and> db (snd (post_reports env0 rq_bad_firma_no_num disk0)) = db disk0"
    by simp
  from a b c v n 1 2 3 show ?thesis by blast
qed

text \<open>C10 as the specification states it fails on \<^verbatim>\<open>/api/reports\<close>: with
  \<^verbatim>\<open>firma_tecnico = abc\<close> and no \<^verbatim>\<open>num_reporte\<close> the answer is the 400 of the
  validation, not a 500.\<close>

theorem malformed_signature_and_missing_field_answers_400:
  "fst (post_reports env0 rq_bad_firma_no_num disk0)
     = Response 400 (Validation_errors [(''num_reporte'', ''Numero de reporte requerido'')])
   \<and> body rq_bad_firma_no_num ''firma_tecnico'' = Some ''abc''"
  by code_simp

subsection \<open>The status of a new record\<close>

lemma estado_new_report [simp]: "estado (new_report i t data ft fc ps an) = or_else (data ''estado'') ''ENVIADO''"
  by (simp add: new_report_def)

lemma estado_supabase_update [simp]: "map estado (supabase_update_pdf e p i rows) = map estado rows"
  by (simp add: supabase_update_pdf_def comp_def split: option.splits)

lemma estado_sql_update [simp]: "map estado (sql_update_pdf p t i rows) = map estado rows"
  by (simp add: sql_update_pdf_def comp_def)









subsection \<open>A successful submission and its record\<close>

lemma sql_get_update:
  "sql_get i (sql_update_pdf p t i rows)
     = map_option (\<lambda>r. r\<lparr>pdf_path := Some p, updated_at := t\<rparr>) (sql_get i rows)"
  by (induction rows) (auto simp: sql_get_def sql_update_pdf_def)

lemma sql_get_id: "sql_get i rows = Some r \<Longrightarrow> report_id r = i"
  by (induction rows) (auto simp: sql_get_def split: if_splits)

lemma render_and_notify_ok:
  assumes "render_and_notify e i rows files = (Some (Inr res), st')"
  shows "\<exists>u v row. res = Response 200 (Created i u v) \<and> get_report i st' = Response 200 (One row)
          \<and> report_id row = i \<and> pdf_path row \<noteq> None"
  using assms
  by (auto simp: render_and_notify_def get_report_def sql_get_update Let_def sql_get_id
      split: option.splits sum.splits prod.splits)

lemma post_reports_try_ok:
  assumes "post_reports_try e rq st = (Some (Inr res), st')"
  shows "\<exists>i u v row. res = Response 200 (Created i u v) \<and> get_report i st' = Response 200 (One row)
          \<and> report_id row = i \<and> pdf_path row \<noteq> None"
  using assms
  apply (simp add: post_reports_try_def Let_def split: sum.splits prod.splits)
  apply (drule render_and_notify_ok)
  apply blast
  done

text \<open>
  On \<^verbatim>\<open>/api/reports\<close> a success response names a record that the detail endpoint
  returns with that identifier and a document reference.
\<close>

lemma reports_success_has_document_reference:
  assumes "post_reports e rq st = (Response 200 (Created i u v), st')"
  shows "\<exists>row. get_report i st' = Response 200 (One row) \<and> report_id row = i \<and> pdf_path row \<noteq> None"
  using assms
  apply (simp add: post_reports_def error_handler_def split: option.splits if_splits sum.splits prod.splits error.splits)
  apply (drule post_reports_try_ok)
  apply auto
  done

text \<open>
  C1 fails on \<^verbatim>\<open>/api/informes\<close>: the Supabase client returns the error of the update
  of \<^verbatim>\<open>pdf_path\<close> instead of throwing it, and line 221 does not look at it (the insert
  at line 216 and the upload at line 51 do). With an update that fails, the submission
  is answered \<^verbatim>\<open>ok: true\<close> and the detail endpoint returns the record with
  \<^verbatim>\<open>pdf_path\<close> still \<^verbatim>\<open>null\<close>.
\<close>

theorem ok_response_without_document_reference:
  "fst (post_informes env_update_fails rq_ok cloud0)
     = Response 200 (Created ''r1'' ''https://sb.example/informes/pdfs/r1/Reporte_17_ana_2024-05-01.pdf'' None)
   \<and> (case get_informe env_update_fails ''r1'' (snd (post_informes env_update_fails rq_ok cloud0)) of
         Response c (One row) \<Rightarrow> c = 200 \<and> report_id row = ''r1'' \<and> pdf_path row = None
       | Response c other \<Rightarrow> False)"
  by code_simp

subsection \<open>Required fields\<close>

text \<open>
  On \<^verbatim>\<open>/api/reports\<close>, when multer has accepted the files, a submission without one of
  the three required fields is answered 400 with the validation errors and changes
  nothing.
\<close>

lemma missing_field_400:
  assumes "cpUpload 0 0 (parts rq) = None"
    and "\<not> truthy (body rq ''num_reporte'') \<or> \<not> truthy (body rq ''usuario'') \<or> \<not> truthy (body rq ''cliente'')"
  shows "post_reports e rq st = (Response 400 (Validation_errors (validationResult validators rq)), st)
         \<and> validationResult validators rq \<noteq> []"
  using assms
  by (auto simp: post_reports_def validationResult_def validators_def)

text \<open>
  C2 fails on \<^verbatim>\<open>/api/informes\<close>: the handler asks \<^verbatim>\<open>validationResult(req)\<close> and has
  the 400 branch (lines 162--163), but the route registers no validation chain, so a
  submission without \<^verbatim>\<open>num_reporte\<close> is inserted and answered \<^verbatim>\<open>ok: true\<close>.
\<close>

theorem missing_report_number_is_stored:
  "fst (post_informes env0 rq_no_num cloud0)
     = Response 200 (Created ''r1'' ''https://sb.example/informes/pdfs/r1/Reporte_null_ana_2024-05-01.pdf'' None)
   \<and> map num_reporte (informes (snd (post_informes env0 rq_no_num cloud0))) = [None]
   \<and> body rq_no_num ''num_reporte'' = None"
  by code_simp

subsection \<open>The notification\<close>

text \<open>Nothing but the mail step reads \<open>sendMail\<close>.\<close>

lemma getTransporter_sendMail [simp]: "getTransporter (e\<lparr>sendMail := x\<rparr>) = getTransporter e"
  by (simp add: getTransporter_def)

lemma header_sendMail [simp]: "header_and_fields (e\<lparr>sendMail := x\<rparr>) l r = header_and_fields e l r"
  by (simp add: header_and_fields_def)

lemma fotos_section_sendMail [simp]: "fotos_section (e\<lparr>sendMail := x\<rparr>) mk ps b = fotos_section e mk ps b"
  by (simp add: fotos_section_def)

lemma firma_sendMail [simp]: "firma (e\<lparr>sendMail := x\<rparr>) s c a b y = firma e s c a b y"
  by (simp add: firma_def split: option.splits)

lemma firmas_section_sendMail [simp]: "firmas_section (e\<lparr>sendMail := x\<rparr>) t c b = firmas_section e t c b"
  by (simp add: firmas_section_def)

lemma body_disk_sendMail [simp]: "body_disk (e\<lparr>sendMail := x\<rparr>) r = body_disk e r"
  by (simp add: body_disk_def)

lemma qr_disk_sendMail [simp]: "qr_disk (e\<lparr>sendMail := x\<rparr>) r = qr_disk e r"
  by (simp add: qr_disk_def)

lemma urls_sendMail [simp]:
  "publicReportURL (e\<lparr>sendMail := x\<rparr>) r = publicReportURL e r"
  "publicPDFURL_disk (e\<lparr>sendMail := x\<rparr>) r = publicPDFURL_disk e r"
  "pdfPath_cloud (e\<lparr>sendMail := x\<rparr>) r = pdfPath_cloud e r"
  "publicPDFURL_cloud (e\<lparr>sendMail := x\<rparr>) r = publicPDFURL_cloud e r"
  by (simp_all add: publicReportURL_def publicPDFURL_disk_def pdfPath_cloud_def publicPDFURL_cloud_def)

lemma generatePDF_disk_sendMail [simp]: "generatePDF_disk (e\<lparr>sendMail := x\<rparr>) r files = generatePDF_disk e r files"
  by (simp add: generatePDF_disk_def cong: sum.case_cong option.case_cong)

lemma body_cloud_sendMail [simp]: "body_cloud (e\<lparr>sendMail := x\<rparr>) r ps ft fc = body_cloud e r ps ft fc"
  by (simp add: body_cloud_def)

lemma uploadToStorage_sendMail [simp]:
  "uploadToStorage (e\<lparr>sendMail := x\<rparr>) b p buf ct st = uploadToStorage e b p buf ct st"
  by (simp add: uploadToStorage_def split: option.splits)

lemma generatePDF_cloud_sendMail [simp]:
  "generatePDF_cloud (e\<lparr>sendMail := x\<rparr>) r ps ft fc st = generatePDF_cloud e r ps ft fc st"
  by (simp add: generatePDF_cloud_def cong: sum.case_cong option.case_cong)

lemma upload_firma_sendMail [simp]: "upload_firma (e\<lparr>sendMail := x\<rparr>) v p st = upload_firma e v p st"
  by (simp add: upload_firma_def split: option.splits sum.splits)

lemma upload_all_sendMail [simp]: "upload_all (e\<lparr>sendMail := x\<rparr>) pre ps st = upload_all e pre ps st"
  by (induction ps arbitrary: st) (simp_all split: prod.splits sum.splits)

lemma supabase_sendMail [simp]:
  "supabase_insert (e\<lparr>sendMail := x\<rparr>) r rows = supabase_insert e r rows"
  "supabase_update_pdf (e\<lparr>sendMail := x\<rparr>) p i rows = supabase_update_pdf e p i rows"
  by (simp_all add: supabase_insert_def supabase_update_pdf_def)

lemma store_uploads_sendMail [simp]: "store_uploads (e\<lparr>sendMail := x\<rparr>) rq st = store_uploads e rq st"
  by (simp add: store_uploads_def cong: sum.case_cong prod.case_cong)

lemma render_and_notify_mail_fails:
  assumes "render_and_notify (e\<lparr>sendMail := None\<rparr>) i rows files = (Some (Inr res), st')"
    and "getTransporter e" and "sendMail e = Some err"
  shows "render_and_notify e i rows files = (Some (Inl err), st')"
  using assms
  by (auto simp: render_and_notify_def notify_def Let_def view_url_def split: option.splits sum.splits prod.splits)

lemma render_and_notify_no_transport:
  assumes "\<not> getTransporter e"
  shows "render_and_notify (e\<lparr>sendMail := x\<rparr>) i rows files = render_and_notify e i rows files"
  using assms
  by (simp add: render_and_notify_def notify_def Let_def view_url_def
      cong: option.case_cong sum.case_cong prod.case_cong)

lemma post_reports_try_mail_fails:
  assumes "post_reports_try (e\<lparr>sendMail := None\<rparr>) rq st = (Some (Inr res), st')"
    and "getTransporter e" and "sendMail e = Some err"
  shows "post_reports_try e rq st = (Some (Inl err), st')"
  using assms
  by (auto simp: post_reports_try_def Let_def render_and_notify_mail_fails split: sum.splits prod.splits)

lemma post_reports_try_no_transport:
  assumes "\<not> getTransporter e"
  shows "post_reports_try (e\<lparr>sendMail := x\<rparr>) rq st = post_reports_try e rq st"
  by (simp add: post_reports_try_def Let_def render_and_notify_no_transport [OF assms]
      cong: option.case_cong sum.case_cong prod.case_cong)

lemma post_reports_mail_fails:
  assumes "post_reports (e\<lparr>sendMail := None\<rparr>) rq st = (Response 200 pl, st')"
    and "getTransporter e" and "sendMail e = Some (Error m)"
  shows "post_reports e rq st = (Response 500 (Failure m), st')"
  using assms
  apply (simp add: post_reports_def error_handler_def split: option.splits if_splits sum.splits prod.splits error.splits)
   apply (auto dest: post_reports_try_mail_fails)
  done

lemma post_reports_no_transport:
  assumes "\<not> getTransporter e"
  shows "post_reports (e\<lparr>sendMail := x\<rparr>) rq st = post_reports e rq st"
  by (simp add: post_reports_def post_reports_try_no_transport [OF assms]
      cong: option.case_cong sum.case_cong prod.case_cong)

lemma insert_and_render_mail_fails:
  assumes "insert_and_render (e\<lparr>sendMail := None\<rparr>) rq ft fc ps an st = (Inr res, st')"
    and "getTransporter e" and "sendMail e = Some err"
  shows "insert_and_render e rq ft fc ps an st = (Inl err, st')"
  using assms
  by (auto simp: insert_and_render_def notify_def Let_def split: option.splits sum.splits prod.splits)

lemma insert_and_render_no_transport:
  assumes "\<not> getTransporter e"
  shows "insert_and_render (e\<lparr>sendMail := x\<rparr>) rq ft fc ps an st = insert_and_render e rq ft fc ps an st"
  using assms
  by (simp add: insert_and_render_def notify_def Let_def
      cong: option.case_cong sum.case_cong prod.case_cong)

lemma post_informes_try_mail_fails:
  assumes "post_informes_try (e\<lparr>sendMail := None\<rparr>) rq st = (Inr res, st')"
    and "getTransporter e" and "sendMail e = Some err"
  shows "post_informes_try e rq st = (Inl err, st')"
  using assms
  by (auto simp: post_informes_try_def insert_and_render_mail_fails split: sum.splits prod.splits)

lemma post_informes_try_no_transport:
  assumes "\<not> getTransporter e"
  shows "post_informes_try (e\<lparr>sendMail := x\<rparr>) rq st = post_informes_try e rq st"
  by (simp add: post_informes_try_def insert_and_render_no_transport [OF assms]
      cong: option.case_cong sum.case_cong prod.case_cong)

lemma post_informes_mail_fails:
  assumes "post_informes (e\<lparr>sendMail := None\<rparr>) rq st = (Response 200 pl, st')"
    and "getTransporter e" and "sendMail e = Some (Error m)"
  shows "post_informes e rq st = (Response 500 (Failure m), st')"
  using assms
  apply (simp add: post_informes_def error_handler_def validationResult_def split: option.splits if_splits sum.splits prod.splits error.splits)
   apply (auto dest: post_informes_try_mail_fails)
  done

lemma post_informes_no_transport:
  assumes "\<not> getTransporter e"
  shows "post_informes (e\<lparr>sendMail := x\<rparr>) rq st = post_informes e rq st"
  by (simp add: post_informes_def post_informes_try_no_transport [OF assms]
      cong: option.case_cong sum.case_cong prod.case_cong)

text \<open>
  C3 (as amended). Take a submission that is answered 200 when the mail is delivered.
  With a transport configured and \<^verbatim>\<open>sendMail\<close> rejecting with message \<open>m\<close>, the same
  submission is answered 500 with \<open>m\<close>, and the state is the one of the successful
  run: the record is stored with its document reference. Without a configured
  transport the mail step is skipped and the outcome of \<^verbatim>\<open>sendMail\<close> changes nothing.
  Both servers.
\<close>

theorem mail_failure_reaches_the_client:
  "(post_reports (e\<lparr>sendMail := None\<rparr>) rq st = (Response 200 pl, st')
      \<and> getTransporter e \<and> sendMail e = Some (Error m)
      \<longrightarrow> post_reports e rq st = (Response 500 (Failure m), st'))
   \<and> (post_informes (e\<lparr>sendMail := None\<rparr>) rq cl = (Response 200 pl', cl')
      \<and> getTransporter e \<and> sendMail e = Some (Error m)
      \<longrightarrow> post_informes e rq cl = (Response 500 (Failure m), cl'))
   \<and> (\<not> getTransporter e
      \<longrightarrow> post_reports e rq st = post_reports (e\<lparr>sendMail := None\<rparr>) rq st
          \<and> post_informes e rq cl = post_informes (e\<lparr>sendMail := None\<rparr>) rq cl)"
  using post_reports_mail_fails [of e rq st pl st' m] post_informes_mail_fails [of e rq cl pl' cl' m]
    post_reports_no_transport [of e None rq st] post_informes_no_transport [of e None rq cl]
  by simp

text \<open>An instance of C3: SMTP is configured and the connection is refused.\<close>

theorem mail_failure_reaches_the_client_witness:
  "getTransporter env_mail_down
   \<and> sendMail env_mail_down = Some (Error ''connect ECONNREFUSED'')
   \<and> fst (post_reports (env_mail_down\<lparr>sendMail := None\<rparr>) rq_ok disk0)
       = Response 200 (Created ''r1'' ''http://localhost:3000/uploads/Reporte_17_ana_2024-05-01.pdf''
                         (Some ''http://localhost:3000/public/report.html?id=r1''))
   \<and> post_reports env_mail_down rq_ok disk0
       = (Response 500 (Failure ''connect ECONNREFUSED''),
          snd (post_reports (env_mail_down\<lparr>sendMail := None\<rparr>) rq_ok disk0))"
proof -
  let ?ok = "Created ''r1'' ''http://localhost:3000/uploads/Reporte_17_ana_2024-05-01.pdf''
                         (Some ''http://localhost:3000/public/report.html?id=r1'')"
  have a: "fst (post_reports (env_mail_down\<lparr>sendMail := None\<rparr>) rq_ok disk0) = Response 200 ?ok"
    by code_simp
  have b: "getTransporter env_mail_down"
    by code_simp
  have c: "sendMail env_mail_down = Some (Error ''connect ECONNREFUSED'')"
    by code_simp
  from a have a': "post_reports (env_mail_down\<lparr>sendMail := None\<rparr>) rq_ok disk0
      = (Response 200 ?ok, snd (post_reports (env_mail_down\<lparr>sendMail := None\<rparr>) rq_ok disk0))"
    by (metis prod.collapse)
  from mail_failure_reaches_the_client [of env_mail_down rq_ok disk0 ?ok
      "snd (post_reports (env_mail_down\<lparr>sendMail := None\<rparr>) rq_ok disk0)" "''connect ECONNREFUSED''"]
    a' b c
  have "post_reports env_mail_down rq_ok disk0
       = (Response 500 (Failure ''connect ECONNREFUSED''),
          snd (post_reports (env_mail_down\<lparr>sendMail := None\<rparr>) rq_ok disk0))"
    by blast
  with a b c show ?thesis by blast
qed

text \<open>C3 as the specification states it fails on both servers: the insert and the
  update of the document reference have succeeded, the mail fails, and the client
  receives a 500.\<close>

theorem mail_failure_answers_500:
  "fst (post_reports env_mail_down rq_ok disk0) = Response 500 (Failure ''connect ECONNREFUSED'')
   \<and> map pdf_path (db (snd (post_reports env_mail_down rq_ok disk0)))
       = [Some ''/uploads/Reporte_17_ana_2024-05-01.pdf'']
   \<and> fst (post_informes env_mail_down rq_ok cloud0) = Response 500 (Failure ''connect ECONNREFUSED'')
   \<and> map pdf_path (informes (snd (post_informes env_mail_down rq_ok cloud0)))
       = [Some ''https://sb.example/informes/pdfs/r1/Reporte_17_ana_2024-05-01.pdf'']"
  by code_simp

subsection \<open>The QR code\<close>

text \<open>The document and the QR image are different files: one name ends in
  \<^verbatim>\<open>.pdf\<close>, the other in \<^verbatim>\<open>.png\<close>.\<close>

lemma replace_ws_snoc: "\<not> is_space c \<Longrightarrow> \<exists>ys. replace_ws b (xs @ [c]) = ys @ [c]"
proof (induction xs arbitrary: b)
  case Nil
  then show ?case by simp
next
  case (Cons x xs)
  from Cons.IH [OF Cons.prems, of True] obtain ys where t: "replace_ws True (xs @ [c]) = ys @ [c]" by blast
  from Cons.IH [OF Cons.prems, of False] obtain zs where f: "replace_ws False (xs @ [c]) = zs @ [c]" by blast
  show ?case
  proof (cases "is_space x")
    case True
    then have "replace_ws b ((x # xs) @ [c]) = ((if b then [] else ''_'') @ ys) @ [c]"
      using t by simp
    then show ?thesis by blast
  next
    case False
    then have "replace_ws b ((x # xs) @ [c]) = (x # zs) @ [c]"
      using f by simp
    then show ?thesis by blast
  qed
qed

lemma last_pdfFile: "last (pdfFile r) = CHR ''f''"
proof -
  let ?a = "''Reporte_'' @ show_js (num_reporte r) @ ''_'' @ show_js (usuario r) @ ''_''
         @ first_part CHR ''T'' (created_at r) @ ''.pd''"
  have "\<not> is_space CHR ''f''" by (simp add: is_space_def)
  from replace_ws_snoc [OF this, of False ?a] obtain ys where "replace_ws False (?a @ ''f'') = ys @ ''f''"
    by blast
  then show ?thesis by (simp add: pdfFile_def)
qed

lemma last_qrPath: "last (qrPath r) = CHR ''g''"
  by (simp add: qrPath_def)

lemma pdfFile_not_qrPath: "pdfFile r \<noteq> qrPath r'"
proof
  assume "pdfFile r = qrPath r'"
  then have "last (pdfFile r) = last (qrPath r')" by simp
  then show False by (simp add: last_pdfFile last_qrPath)
qed

text \<open>What a render that returns has done, in each server.\<close>

lemma generatePDF_disk_Inr:
  assumes "generatePDF_disk e r files = (Some (Inr p), files')"
  shows "\<exists>d b. createWriteStream e (pdfFile r) = None
           \<and> QRCode_toDataURL e (publicReportURL e r @ ''|'' @ publicPDFURL_disk e r) = Inr d
           \<and> index (split_on CHR '','' d) 1 = Some b
           \<and> p = ''/uploads/'' @ basename (pdfFile r)
           \<and> files' = files(qrPath r \<mapsto> Base64 b, pdfFile r \<mapsto> Rendered (body_disk e r @ qr_disk e r))"
  using assms
  by (auto simp: generatePDF_disk_def saveBase64PNG_def split: sum.splits option.splits)

lemma generatePDF_cloud_Inr:
  assumes "generatePDF_cloud e r ps ft fc st = (Inr url, st')"
  shows "\<exists>d b. QRCode_toDataURL e (publicReportURL e r @ ''|'' @ publicPDFURL_cloud e r) = Inr d
           \<and> index (split_on CHR '','' d) 1 = Some b
           \<and> url = getPublicUrl e ''informes'' (pdfPath_cloud e r)
           \<and> objects st' (''informes'', pdfPath_cloud e r)
               = Some (Rendered (body_cloud e r ps ft fc
                         @ [Image (Buf (Base64 b)) (page_width - 150) (page_height - 120) (Width 90)]),
                       ''application/pdf'')"
  using assms
  by (auto simp: generatePDF_cloud_def saveBase64ToBuffer_def uploadToStorage_def split: sum.splits option.splits)

text \<open>
  In part_000 the drawing of the QR image is inside a \<^verbatim>\<open>try\<close> (lines 177--180): when
  the write stream is open and the QR image has been generated and saved, a failure to
  draw it is swallowed, and \<^verbatim>\<open>generatePDF\<close> writes the document, with the caption and
  without the image, and returns its reference.
\<close>

lemma qr_drawing_failure_is_swallowed_on_disk:
  assumes "createWriteStream e (pdfFile r) = None"
    and "QRCode_toDataURL e (publicReportURL e r @ ''|'' @ publicPDFURL_disk e r) = Inr d"
    and "index (split_on CHR '','' d) 1 = Some b"
    and "image_error e (File (qrPath r)) = Some err"
  shows "generatePDF_disk e r files
          = (Some (Inr (''/uploads/'' @ basename (pdfFile r))),
             files(qrPath r \<mapsto> Base64 b,
                   pdfFile r \<mapsto> Rendered (body_disk e r
                      @ [TxtAt ''Escanee para ver el reporte y PDF online'' 40 (page_height - 60)])))"
  using assms
  by (simp add: generatePDF_disk_def saveBase64PNG_def qr_disk_def)

lemma unreadable_qr_file_is_left_out:
  "image_error env_qr_unreadable (File (qrPath (row_ana\<lparr>report_id := ''r1''\<rparr>)))
     = Some (Error ''Unknown image format.'')
   \<and> fst (generatePDF_disk env_qr_unreadable (row_ana\<lparr>report_id := ''r1''\<rparr>) Map.empty)
     = Some (Inr ''/uploads/Reporte_17_ana_2024-05-01.pdf'')"
  by code_simp

text \<open>
  The generation is outside that \<^verbatim>\<open>try\<close>, and server.js has no \<^verbatim>\<open>try\<close> in its QR
  section at all (lines 131--135): what \<^verbatim>\<open>QRCode.toDataURL\<close> rejects with, and in
  server.js also what the drawing throws, leaves \<^verbatim>\<open>generatePDF\<close>.
\<close>

lemma qr_failure_leaves_generatePDF:
  "createWriteStream e (pdfFile r) = None
     \<Longrightarrow> QRCode_toDataURL e (publicReportURL e r @ ''|'' @ publicPDFURL_disk e r) = Inl err
     \<Longrightarrow> generatePDF_disk e r files = (Some (Inl err), files)"
  "QRCode_toDataURL e (publicReportURL e r @ ''|'' @ publicPDFURL_cloud e r) = Inl err
     \<Longrightarrow> generatePDF_cloud e r ps ft fc cl = (Inl err, cl)"
  "QRCode_toDataURL e (publicReportURL e r @ ''|'' @ publicPDFURL_cloud e r) = Inr d
     \<Longrightarrow> index (split_on CHR '','' d) 1 = Some b
     \<Longrightarrow> image_error e (Buf (Base64 b)) = Some err
     \<Longrightarrow> generatePDF_cloud e r ps ft fc cl = (Inl err, cl)"
  by (simp_all add: generatePDF_disk_def generatePDF_cloud_def saveBase64ToBuffer_def)

text \<open>
  The name of the user is part of the text of the QR code, so the text is longer than
  the name when the name has no white space to collapse.
\<close>

lemma replace_ws_keeps:
  "\<forall>c\<in>set u. \<not> is_space c \<Longrightarrow> length u \<le> length (replace_ws p (u @ b))"
  by (induction u arbitrary: p) auto

lemma replace_ws_long:
  "\<forall>c\<in>set u. \<not> is_space c \<Longrightarrow> length u \<le> length (replace_ws p (a @ u @ b))"
proof (induction a arbitrary: p)
  case Nil
  then show ?case by (simp add: replace_ws_keeps)
next
  case (Cons c a)
  from Cons.IH [OF Cons.prems, of True] Cons.IH [OF Cons.prems, of False]
  show ?case by auto
qed

lemma qr_text_length:
  assumes "usuario r = Some u" and "\<forall>c\<in>set u. \<not> is_space c"
  shows "length u < length (publicReportURL e r @ ''|'' @ publicPDFURL_cloud e r)"
proof -
  have "length u \<le> length (replace_ws False ((''Reporte_'' @ show_js (num_reporte r) @ ''_'') @ u
          @ (''_'' @ take 10 (clock_pdf e) @ ''.pdf'')))"
    using assms(2) by (rule replace_ws_long)
  then show ?thesis
    using assms(1) by (simp add: publicPDFURL_cloud_def pdfPath_cloud_def show_js_def)
qed

lemma informes_qr_rejection:
  assumes "upload_fields (parts rq) = None"
    and "store_uploads e rq st = (Inr (ft, fc, ps, an), st1)"
    and "insert_error e = None"
    and "QRCode_toDataURL e (publicReportURL e (new_report (uuidv4 e) (now e) (body rq) ft fc ps an) @ ''|''
           @ publicPDFURL_cloud e (new_report (uuidv4 e) (now e) (body rq) ft fc ps an)) = Inl (Error m)"
  shows "post_informes e rq st
           = (Response 500 (Failure m),
              st1\<lparr>informes := informes st1 @ [new_report (uuidv4 e) (now e) (body rq) ft fc ps an]\<rparr>)"
  using assms
  by (simp add: post_informes_def validationResult_def post_informes_try_def insert_and_render_def
      Let_def supabase_insert_def generatePDF_cloud_def)

lemma long_usuario_is_stored_without_document:
  "post_informes env_qr_capacity rq_long_usuario cloud0
     = (Response 500 (Failure ''The amount of data is too big to be stored in a QR Code''),
        cloud0\<lparr>informes := [new_report ''r1'' (now env0) (body rq_long_usuario) None None [] []]\<rparr>)"
proof -
  let ?r = "new_report ''r1'' (now env0) (body rq_long_usuario) None None [] []"
  have u: "usuario ?r = Some (replicate 3000 CHR ''a'')"
    by (simp add: new_report_def rq_long_usuario_def)
  have "length (replicate 3000 CHR ''a'')
          < length (publicReportURL env_qr_capacity ?r @ ''|'' @ publicPDFURL_cloud env_qr_capacity ?r)"
    using u by (rule qr_text_length) (simp add: is_space_def)
  then have q: "QRCode_toDataURL env_qr_capacity
        (publicReportURL env_qr_capacity ?r @ ''|'' @ publicPDFURL_cloud env_qr_capacity ?r)
      = Inl (Error ''The amount of data is too big to be stored in a QR Code'')"
    by (simp add: env_qr_capacity_def)
  have s: "store_uploads env_qr_capacity rq_long_usuario cloud0 = (Inr (None, None, [], []), cloud0)"
    by (simp add: store_uploads_def Let_def upload_firma_def rq_long_usuario_def req_files_def)
  have f: "upload_fields (parts rq_long_usuario) = None"
    by (simp add: upload_fields_def rq_long_usuario_def)
  have i: "insert_error env_qr_capacity = None" "uuidv4 env_qr_capacity = ''r1''"
    "now env_qr_capacity = now env0" "informes cloud0 = []"
    by (simp_all add: env_qr_capacity_def env0_def cloud0_def)
  from informes_qr_rejection [OF f s i(1), of "''The amount of data is too big to be stored in a QR Code''"] q i
  show ?thesis by simp
qed

text \<open>
  C4 fails on the code. A submission to \<^verbatim>\<open>/api/informes\<close> whose \<^verbatim>\<open>usuario\<close> has 3000
  characters makes the text for the QR code longer than any QR symbol holds: the
  library rejects, \<^verbatim>\<open>generatePDF\<close> rejects with it, the submission is answered 500
  and its record stays without a document reference. In part_000 too a rejection by
  the QR library leaves \<^verbatim>\<open>generatePDF\<close> and is answered 500.
\<close>

theorem qr_generation_failure_aborts:
  "fst (post_informes env_qr_capacity rq_long_usuario cloud0)
     = Response 500 (Failure ''The amount of data is too big to be stored in a QR Code'')
   \<and> map pdf_path (informes (snd (post_informes env_qr_capacity rq_long_usuario cloud0))) = [None]
   \<and> fst (generatePDF_disk env_qr_fails row_ana Map.empty)
     = Some (Inl (Error ''The amount of data is too big to be stored in a QR Code''))
   \<and> fst (post_reports env_qr_fails rq_ok disk0)
     = Response 500 (Failure ''The amount of data is too big to be stored in a QR Code'')"
proof -
  have "fst (generatePDF_disk env_qr_fails row_ana Map.empty)
     = Some (Inl (Error ''The amount of data is too big to be stored in a QR Code''))
   \<and> fst (post_reports env_qr_fails rq_ok disk0)
     = Response 500 (Failure ''The amount of data is too big to be stored in a QR Code'')"
    by code_simp
  then show ?thesis
    by (simp add: long_usuario_is_stored_without_document new_report_def)
qed

text \<open>
  On \<^verbatim>\<open>/api/reports\<close> the text of the QR code is the \<^verbatim>\<open>view_url\<close> of the response, a
  pipe, and its \<^verbatim>\<open>pdf_url\<close>, and the saved QR image is the image the library made of
  that text: every reader that inverts the library's encoding reads it back.
\<close>

lemma sql_get_append_new:
  "report_id r \<notin> set (map report_id rows) \<Longrightarrow> sql_get (report_id r) (rows @ [r]) = Some r"
  by (induction rows) (auto simp: sql_get_def)

lemma render_and_notify_qr:
  assumes "render_and_notify e i rows files = (Some (Inr res), st')"
    and "sql_get i rows = Some r" and "pdf_path r = None" and "report_id r = i"
  shows "\<exists>d b. QRCode_toDataURL e (view_url e i @ ''|'' @ BASE_URL e @ ''/uploads/'' @ basename (pdfFile r)) = Inr d
           \<and> index (split_on CHR '','' d) 1 = Some b
           \<and> res = Response 200 (Created i (BASE_URL e @ ''/uploads/'' @ basename (pdfFile r)) (Some (view_url e i)))
           \<and> fs st' (''/uploads/qr_'' @ i @ ''.png'') = Some (Base64 b)"
proof -
  from assms obtain p files' where g: "generatePDF_disk e r files = (Some (Inr p), files')"
    and res: "res = Response 200 (Created i (BASE_URL e @ p) (Some (view_url e i)))"
    and st': "fs st' = files'"
    by (auto simp: render_and_notify_def Let_def split: sum.splits option.splits prod.splits)
  from generatePDF_disk_Inr [OF g] obtain d b where
    d: "QRCode_toDataURL e (publicReportURL e r @ ''|'' @ publicPDFURL_disk e r) = Inr d"
    and b: "index (split_on CHR '','' d) 1 = Some b"
    and p: "p = ''/uploads/'' @ basename (pdfFile r)"
    and f: "files' = files(qrPath r \<mapsto> Base64 b, pdfFile r \<mapsto> Rendered (body_disk e r @ qr_disk e r))"
    by blast
  have "files' (qrPath r) = Some (Base64 b)"
    using f pdfFile_not_qrPath [of r r] by simp
  moreover have "publicReportURL e r @ ''|'' @ publicPDFURL_disk e r
      = view_url e i @ ''|'' @ BASE_URL e @ ''/uploads/'' @ basename (pdfFile r)"
    using assms(3,4) by (simp add: publicReportURL_def publicPDFURL_disk_def view_url_def or_else_def)
  ultimately show ?thesis
    using d b p res st' assms(4) by (auto simp: qrPath_def)
qed

lemma post_reports_qr:
  assumes "post_reports e rq st = (Response 200 (Created i pdf (Some view)), st')"
  shows "\<exists>d b. QRCode_toDataURL e (view @ ''|'' @ pdf) = Inr d
           \<and> index (split_on CHR '','' d) 1 = Some b
           \<and> fs st' (''/uploads/qr_'' @ i @ ''.png'') = Some (Base64 b)"
proof -
  from assms obtain res where t: "post_reports_try e rq st = (Some (Inr res), st')"
    and res: "res = Response 200 (Created i pdf (Some view))"
    by (auto simp: post_reports_def error_handler_def split: option.splits if_splits sum.splits prod.splits error.splits)
  from t obtain r rows files where
    ins: "sql_insert r (db st) = Inr rows" and r: "report_id r = uuidv4 e" "pdf_path r = None"
    and rn: "render_and_notify e (uuidv4 e) rows files = (Some (Inr res), st')"
    by (auto simp: post_reports_try_def Let_def new_report_def split: sum.splits prod.splits)
  from ins have "sql_get (uuidv4 e) rows = Some r"
    using sql_get_append_new [of r "db st"] r(1) by (auto simp: sql_insert_def split: if_splits)
  from render_and_notify_qr [OF rn this r(2) r(1)] res show ?thesis
    by auto
qed

lemma reports_qr_reads_back_the_response_urls:
  assumes "\<forall>t d b. QRCode_toDataURL e t = Inr d \<and> index (split_on CHR '','' d) 1 = Some b
             \<longrightarrow> reader (Base64 b) = Some t"
    and "post_reports e rq st = (Response 200 (Created i pdf (Some view)), st')"
  shows "\<exists>img. fs st' (''/uploads/qr_'' @ i @ ''.png'') = Some img
           \<and> reader img = Some (view @ ''|'' @ pdf)"
  using post_reports_qr [OF assms(2)] assms(1) by blast

text \<open>
  C7 fails on \<^verbatim>\<open>/api/informes\<close>. The document is published at the URL the storage
  returns, which the handler answers as \<^verbatim>\<open>pdf_url\<close> and stores as \<^verbatim>\<open>pdf_path\<close>
  (server.js lines 141, 221, 236), while the QR code is made before the upload from
  \<^verbatim>\<open>`${BASE_URL}/${pdfPath}`\<close> (line 132), a URL of the server itself: the second
  half of the text read from the QR image of the stored document is not the public URL
  of that document.
\<close>

theorem informes_qr_names_another_url:
  "fst (post_informes env0 rq_ok cloud0)
     = Response 200 (Created ''r1'' ''https://sb.example/informes/pdfs/r1/Reporte_17_ana_2024-05-01.pdf'' None)
   \<and> map pdf_path (informes (snd (post_informes env0 rq_ok cloud0)))
     = [Some ''https://sb.example/informes/pdfs/r1/Reporte_17_ana_2024-05-01.pdf'']
   \<and> map_option (qr_texts read_payload \<circ> fst)
        (objects (snd (post_informes env0 rq_ok cloud0))
           (''informes'', ''pdfs/r1/Reporte_17_ana_2024-05-01.pdf''))
     = Some [Some ''http://localhost:3000/public/report.html?id=r1|http://localhost:3000/pdfs/r1/Reporte_17_ana_2024-05-01.pdf'']"
  by code_simp

text \<open>Whatever the environment, the document URL in the QR text of server.js is built
  from \<^verbatim>\<open>BASE_URL\<close> and the returned one by the storage.\<close>

lemma informes_qr_url_and_returned_url:
  assumes "generatePDF_cloud e r ps ft fc cl = (Inr url, cl')"
  shows "url = getPublicUrl e ''informes'' (pdfPath_cloud e r)
       \<and> publicPDFURL_cloud e r = BASE_URL e @ ''/'' @ pdfPath_cloud e r"
  using generatePDF_cloud_Inr [OF assms] by (auto simp: publicPDFURL_cloud_def)

subsection \<open>A report number with a slash\<close>

text \<open>
  With \<^verbatim>\<open>num_reporte = 17/3\<close> the document would lie in the directory
  \<^verbatim>\<open>uploads/Reporte_17\<close>, which does not exist: the write stream fails, the process
  ends and the client receives no answer; the record has been inserted and keeps no
  document reference.
\<close>

lemma slash_in_report_number_ends_the_process:
  "pdfFile (new_report ''r1'' (now env0) (body rq_slash) None None [] [])
     = ''/uploads/Reporte_17/3_ana_2024-05-01.pdf''
   \<and> fst (post_reports env0 rq_slash disk0) = No_response
   \<and> map pdf_path (db (snd (post_reports env0 rq_slash disk0))) = [None]"
  by code_simp

subsection \<open>Listing with filters\<close>








lemma list_informes_all:
  "select_error e = None \<Longrightarrow> rows_of (list_informes e q st) = rev (sort_key created_at (informes st))"
  by (simp add: rows_of_def list_informes_def)






end
